theory Spec2Isabelle
  imports Complex_Main "HOL-Library.AList"
begin

section \<open>The racing gateway: data model\<close>

text \<open>
  A shallow embedding of \<^verbatim>\<open>src/racing/racing.gateway.ts\<close> (class RacingGateway, the
  version built on the manually managed connection registry) together with the enums of
  \<^verbatim>\<open>schemas/room.schema.ts\<close> and \<^verbatim>\<open>schemas/player.schema.ts\<close>.

  Conventions of the embedding.
  \<^item> A JavaScript \<^verbatim>\<open>number\<close> is a \<open>real\<close>; numbers are only stored, copied and compared.
  \<^item> A \<^verbatim>\<open>Record<string, V>\<close> and a \<^verbatim>\<open>Map<string, V>\<close> are association lists
    in key enumeration order: \<open>map_of\<close> reads a key, \<open>AList.update\<close> writes one (in
    place when the key exists, at the end otherwise), \<open>AList.delete\<close> removes one,
    \<open>AList.map_entry\<close> mutates the object stored under a key.
    A \<^verbatim>\<open>Map\<close> enumerates in insertion order. A plain object enumerates its array-index
    keys first, in ascending order, and then its other keys in insertion order: the
    room directory, whose keys are the ids issued by the store, is written with
    \<open>assignKey\<close>, which puts a new key at its place in that order. The keys of a
    \<^verbatim>\<open>players\<close> object are connection ids, which handleConnection draws with
    \<^verbatim>\<open>uuidv4()\<close>; no uuid is an array index, so there insertion order is enumeration
    order.
  \<^item> A key that the directory does not hold is read as absent (\<open>map_of\<close> gives
    \<open>None\<close>). In JavaScript \<^verbatim>\<open>this.rooms[k]\<close> is not \<^verbatim>\<open>undefined\<close> for the few names \<open>k\<close>
    that every object inherits (\<^verbatim>\<open>constructor\<close>, \<^verbatim>\<open>toString\<close>, \<^verbatim>\<open>__proto__\<close> and the
    like), but the inherited member, which is no room: a message that names such
    a room id may get another answer than the one given here, and leaves the registry,
    the bindings and the directory as they are. The store issues no such id, and every
    statement below about a room assumes that the directory holds it.
  \<^item> A handler is a function from the state before the message to the state after it:
    it runs from its first to its last statement without another handler running in
    between. The outcome of every call into RoomService and PlayerService is read from
    an environment value \<open>Env\<close>. For startGame, whose awaited store call separates the
    status change from the reset of the players, the two parts are also given on their
    own (\<open>startGame_suspend\<close>, \<open>startGame_resume\<close>), so that a message handled
    during the await can be placed between them.
  \<^item> Everything the gateway transmits is appended to \<open>outbox\<close>: one entry for each
    message, with the connections on which \<^verbatim>\<open>send\<close> was called; every call into the
    durable store that returned without throwing is appended to \<open>dblog\<close>.
\<close>

type_synonym number = real

datatype RoomStatus = WAITING | RUNNING | FINISHED

datatype PlayerStatus = Waiting | Ready

datatype ReadyState = CONNECTING | OPEN | CLOSING | CLOSED

record Vec3 =
  vx :: number
  vy :: number
  vz :: number

record PlayerCarEntry =
  car_id :: number
  car_model :: string
  car_brand :: string
  car_name :: string

text \<open>The fields of a stored player document that the gateway reads.\<close>

record Player =
  doc_id :: string
  doc_telegramId :: string
  doc_playerName :: string
  doc_mainCar :: number
  doc_ownerCars :: "PlayerCarEntry list"

record PlayerData =
  socketId :: string
  playerName :: string
  mainCar :: number
  ownerCars :: "PlayerCarEntry list"
  p_id :: string
  telegramId :: string
  isHost :: bool
  position :: Vec3
  rotation :: Vec3
  speed :: number
  status :: PlayerStatus
  distance :: number
  isLoaded :: bool

record RoomData =
  roomId :: string
  roomValue :: "number option"
  password :: "string option"
  roomStatus :: RoomStatus
  players :: "(string \<times> PlayerData) list"

subsection \<open>Inbound payloads\<close>

text \<open>
  The \<^verbatim>\<open>data\<close> member of an inbound envelope: missing or null (\<open>NoData\<close>), an object
  whose required fields are missing or of the wrong type (\<open>BadFields\<close>), or an object
  that has the fields of the handler's Dto (\<open>Fields\<close>).
\<close>

datatype 'a payload = NoData | BadFields | Fields 'a

record CreateRoomDto =
  cr_value :: "number option"
  cr_password :: "string option"
  cr_playerId :: string

record JoinRoomDto =
  jr_roomID :: string
  jr_playerId :: string
  jr_password :: "string option"

record KickPlayerDto =
  kp_roomID :: string
  kp_targetSocketID :: string

record StartGameDto =
  sg_roomID :: string
  sg_map :: number

record WaitingRoomDto =
  wr_roomID :: string

record LoadingGameDto =
  lg_roomID :: string
  lg_playerID :: string

record PlayerReadyDto =
  pr_roomID :: string
  pr_playerID :: string

record PlayerChangeCarDto =
  cc_roomID :: string
  cc_playerID :: string
  cc_mainCar :: number

text \<open>
  syncPosition and syncCarPosition test only whether \<^verbatim>\<open>roomID\<close> is truthy and then use it
  as a property key of the directory, whatever its type: a falsy value (missing, null,
  false, 0, the empty string) is \<open>NoRoomID\<close>, a truthy one is \<open>RoomKey k\<close> with \<open>k\<close> the key
  JavaScript converts it to (a non-empty string is its own key, the number 1 is the
  key "1"). For these two handlers \<open>BadFields\<close> is a data object whose position, rotation
  or speed fails the handler's test. Of position and rotation only the members x, y and
  z are kept.
\<close>

datatype RoomRef = NoRoomID | RoomKey string

record PositionSyncDto =
  ps_roomID :: RoomRef
  ps_position :: Vec3
  ps_rotation :: Vec3
  ps_speed :: number
  ps_distance :: "number option"

subsection \<open>Outbound messages\<close>

record PublicRoom =
  pub_id :: string
  pub_status :: RoomStatus
  pub_value :: "number option"
  isPassword :: bool
  playerCount :: nat

record StartedPlayer =
  st_socketId :: string
  st_playerId :: string
  st_playerName :: string
  st_mainCar :: number
  st_isHost :: bool
  st_position :: Vec3
  st_rotation :: Vec3

datatype Outbound =
    roomListUpdated "PublicRoom list"
  | yourSocketId string
  | roomDetails string RoomStatus "number option" nat "PlayerData list"
  | updatePlayers "PlayerData list"
  | playerJoined PlayerData
  | playerLeft string string
  | playerLeft_socketId string string
  | leftRoom string
  | roomClosed string
  | kicked string string
  | playerKicked string string
  | gameStarted string number RoomStatus "StartedPlayer list"
  | gameStartFailed
  | playersNotReady "string list"
  | updateWaitingRoom string RoomStatus
  | playerIsReady string string
  | allPlayersLoaded string
  | playerPositionUpdate string Vec3 Vec3 number number
  | carPositionUpdate string Vec3 Vec3 number
  | error string "string option"
  | ping_response

text \<open>
  \<open>playerLeft\<close> is the payload of handleDisconnect (member \<^verbatim>\<open>socketID\<close>),
  \<open>playerLeft_socketId\<close> the one of leaveRoom (member \<^verbatim>\<open>socketId\<close>).
\<close>

subsection \<open>The durable store as seen from the gateway\<close>

datatype DbCall =
    PlayerService_getPlayerWithId string
  | PlayerService_updatePlayerSocket string string bool
  | PlayerService_updatePlayerStatus string PlayerStatus
  | PlayerService_updateMainCar string number
  | RoomService_createRoom number string "string list" RoomStatus
  | RoomService_getRoomWithId string
  | RoomService_addPlayerToRoom string string
  | RoomService_leaveRoom string string
  | RoomService_deleteRoom string
  | RoomService_updateRoomStatus string RoomStatus

text \<open>
  \<open>fails c = Some m\<close>: the call \<open>c\<close> throws an Error with message \<open>m\<close>.
  \<open>playerModel\<close> is what \<^verbatim>\<open>findById\<close> finds in the player collection, \<open>nextId\<close> the
  id that \<^verbatim>\<open>getNextSequenceValue\<close> issues to \<^verbatim>\<open>RoomService.createRoom\<close>,
  \<open>roomInDb\<close> the \<^verbatim>\<open>players\<close> of the document \<^verbatim>\<open>getRoomWithId\<close> returns, and
  \<open>production\<close> whether \<^verbatim>\<open>NODE_ENV\<close> is \<^verbatim>\<open>production\<close>.
\<close>

record Env =
  playerModel :: "string \<Rightarrow> Player option"
  nextId :: string
  roomInDb :: "string \<Rightarrow> string list option"
  fails :: "DbCall \<Rightarrow> string option"
  production :: bool

subsection \<open>The gateway's state\<close>

record Gateway =
  clients :: "(string \<times> ReadyState) list"
  clientPlayerMap :: "(string \<times> string) list"
  rooms :: "(string \<times> RoomData) list"
  outbox :: "(string list \<times> Outbound) list"
  dblog :: "DbCall list"

section \<open>Sending and broadcasting\<close>

definition sendToClient :: "Gateway \<Rightarrow> string \<Rightarrow> Outbound \<Rightarrow> Gateway" where
  "sendToClient s client msg =
     (if map_of (clients s) client = Some OPEN
      then s\<lparr>outbox := outbox s @ [([client], msg)]\<rparr>
      else s)"

definition sendError :: "Env \<Rightarrow> Gateway \<Rightarrow> string \<Rightarrow> string \<Rightarrow> string option \<Rightarrow> Gateway" where
  "sendError d s client message details =
     sendToClient s client
       (error message
          (case details of
             None \<Rightarrow> None
           | Some dt \<Rightarrow> if \<not> production d \<and> dt \<noteq> [] then Some dt else None))"

text \<open>
  Of the given connection ids, those that are not the excluded one and whose socket is
  registered and open: the loop body shared by broadcastToAll and broadcastToRoom.
\<close>

definition openClients ::
  "(string \<times> ReadyState) list \<Rightarrow> string option \<Rightarrow> string list \<Rightarrow> string list" where
  "openClients registry excludeSocketId ids =
     filter (\<lambda>i. Some i \<noteq> excludeSocketId \<and> map_of registry i = Some OPEN) ids"

definition broadcastToAll :: "Gateway \<Rightarrow> Outbound \<Rightarrow> string option \<Rightarrow> Gateway" where
  "broadcastToAll s msg excludeSocketId =
     (if clients s = [] then s
      else s\<lparr>outbox := outbox s @ [(openClients (clients s) excludeSocketId (map fst (clients s)), msg)]\<rparr>)"

definition broadcastToRoom :: "Gateway \<Rightarrow> string \<Rightarrow> Outbound \<Rightarrow> string option \<Rightarrow> Gateway" where
  "broadcastToRoom s roomID msg excludeSocketId =
     (case map_of (rooms s) roomID of
        None \<Rightarrow> s
      | Some room \<Rightarrow>
          if players room = [] then s
          else s\<lparr>outbox := outbox s @ [(openClients (clients s) excludeSocketId (map fst (players room)), msg)]\<rparr>)"

definition getPublicRoomList :: "(string \<times> RoomData) list \<Rightarrow> PublicRoom list" where
  "getPublicRoomList directory =
     map (\<lambda>room. \<lparr>pub_id = roomId room, pub_status = roomStatus room, pub_value = roomValue room,
                  isPassword = (case password room of None \<Rightarrow> False | Some pw \<Rightarrow> pw \<noteq> []),
                  playerCount = length (players room)\<rparr>)
       (filter (\<lambda>room. roomId room \<noteq> []) (map snd directory))"

definition broadcastRoomList :: "Gateway \<Rightarrow> Gateway" where
  "broadcastRoomList s = broadcastToAll s (roomListUpdated (getPublicRoomList (rooms s))) None"

text \<open>A call into the durable store that changes it: logged unless it throws.\<close>

definition dbDo :: "Env \<Rightarrow> DbCall \<Rightarrow> Gateway \<Rightarrow> Gateway" where
  "dbDo d c s = (if fails d c = None then s\<lparr>dblog := dblog s @ [c]\<rparr> else s)"

subsection \<open>Key order of an object\<close>

text \<open>
  The array index that a property key denotes, if any: the key is the decimal numeral,
  without leading zeros, of an integer below 4294967295 (that is, at most \<open>2^32 - 2\<close>).
\<close>

definition digitValue :: "char \<Rightarrow> nat option" where
  "digitValue c =
     map_of [(CHR ''0'', 0), (CHR ''1'', 1), (CHR ''2'', 2), (CHR ''3'', 3), (CHR ''4'', 4),
             (CHR ''5'', 5), (CHR ''6'', 6), (CHR ''7'', 7), (CHR ''8'', 8), (CHR ''9'', 9)] c"

fun decimal :: "nat \<Rightarrow> string \<Rightarrow> nat option" where
  "decimal acc [] = Some acc"
| "decimal acc (c # cs) =
     (case digitValue c of
        None \<Rightarrow> None
      | Some v \<Rightarrow> decimal (10 * acc + v) cs)"

definition arrayIndex :: "string \<Rightarrow> nat option" where
  "arrayIndex k =
     (if k = [] \<or> (hd k = CHR ''0'' \<and> k \<noteq> ''0'') then None
      else (case decimal 0 k of
              None \<Rightarrow> None
            | Some n \<Rightarrow> if n < 4294967295 then Some n else None))"

text \<open>
  \<^verbatim>\<open>obj[k] = v\<close> on a plain object. An existing key keeps its place. A new key that is
  an array index goes before the first key that is a greater index or no index; any
  other new key goes to the end.
\<close>

fun insertIndex :: "nat \<Rightarrow> string \<Rightarrow> 'v \<Rightarrow> (string \<times> 'v) list \<Rightarrow> (string \<times> 'v) list" where
  "insertIndex n k v [] = [(k, v)]"
| "insertIndex n k v ((k', v') # rest) =
     (case arrayIndex k' of
        None \<Rightarrow> (k, v) # (k', v') # rest
      | Some m \<Rightarrow> if m < n then (k', v') # insertIndex n k v rest
                  else (k, v) # (k', v') # rest)"

definition assignKey :: "string \<Rightarrow> 'v \<Rightarrow> (string \<times> 'v) list \<Rightarrow> (string \<times> 'v) list" where
  "assignKey k v kvs =
     (if map_of kvs k \<noteq> None then AList.update k v kvs
      else (case arrayIndex k of
              None \<Rightarrow> kvs @ [(k, v)]
            | Some n \<Rightarrow> insertIndex n k v kvs))"

section \<open>Connection and disconnection\<close>

definition handleConnection :: "Gateway \<Rightarrow> string \<Rightarrow> Gateway" where
  "handleConnection s sid =
     (let s1 = s\<lparr>clients := AList.update sid OPEN (clients s)\<rparr>;
          s2 = sendToClient s1 sid (roomListUpdated (getPublicRoomList (rooms s1)))
      in sendToClient s2 sid (yourSocketId sid))"

text \<open>
  The \<^verbatim>\<open>for (const roomID in this.rooms)\<close> loop of handleDisconnect and leaveRoom: the
  first room, in key enumeration order, whose players hold the connection.
\<close>

fun findRoomOf :: "(string \<times> RoomData) list \<Rightarrow> string \<Rightarrow> (string \<times> PlayerData) option" where
  "findRoomOf [] sid = None"
| "findRoomOf ((roomID, room) # rest) sid =
     (case map_of (players room) sid of
        Some player \<Rightarrow> Some (roomID, player)
      | None \<Rightarrow> findRoomOf rest sid)"

definition removePlayer :: "string \<Rightarrow> string \<Rightarrow> Gateway \<Rightarrow> Gateway" where
  "removePlayer roomID sid s =
     s\<lparr>rooms := AList.map_entry roomID
          (\<lambda>room. room\<lparr>players := AList.delete sid (players room)\<rparr>) (rooms s)\<rparr>"

definition handleDisconnect :: "Env \<Rightarrow> Gateway \<Rightarrow> string \<Rightarrow> Gateway" where
  "handleDisconnect d s sid =
     (if map_of (clients s) sid = None then s
      else
        let s5 =
          (case findRoomOf (rooms s) sid of
             None \<Rightarrow> s
           | Some (roomID, player) \<Rightarrow>
               let s1 = removePlayer roomID sid s;
                   s2 = (if p_id player \<noteq> []
                         then dbDo d (RoomService_leaveRoom roomID (p_id player)) s1 else s1)
               in if roomID = [] then s2
                  else
                    let s4 =
                      (if isHost player
                       then
                         (case map_of (rooms s2) roomID of
                            Some currentRoomState \<Rightarrow>
                              let s3 = broadcastToRoom s2 roomID (roomClosed ''Host disconnected'') None
                              in dbDo d (RoomService_deleteRoom roomID)
                                   (s3\<lparr>rooms := AList.delete roomID (rooms s3)\<rparr>)
                          | None \<Rightarrow> s2)
                       else
                         (case map_of (rooms s2) roomID of
                            Some currentRoomState \<Rightarrow>
                              let s3 = broadcastToRoom s2 roomID
                                         (updatePlayers (map snd (players currentRoomState))) None
                              in broadcastToRoom s3 roomID (playerLeft sid (p_id player)) None
                          | None \<Rightarrow> s2))
                    in broadcastRoomList s4)
        in s5\<lparr>clients := AList.delete sid (clients s5),
              clientPlayerMap := AList.delete sid (clientPlayerMap s5)\<rparr>)"

section \<open>Room and player handlers\<close>

text \<open>A key that JavaScript treats as true: present and not the empty string.\<close>

definition truthy :: "string option \<Rightarrow> string option" where
  "truthy v = (case v of Some (c # cs) \<Rightarrow> Some (c # cs) | _ \<Rightarrow> None)"

text \<open>The key of the first room one of whose players has the given player id.\<close>

definition existingRoomId :: "(string \<times> RoomData) list \<Rightarrow> string \<Rightarrow> string option" where
  "existingRoomId rs playerId =
     map_option fst
       (find (\<lambda>(roomID, room). list_ex (\<lambda>pl. p_id pl = playerId) (map snd (players room))) rs)"

definition origin :: Vec3 where
  "origin = \<lparr>vx = 0, vy = 0, vz = 0\<rparr>"

definition newPlayerData :: "Player \<Rightarrow> string \<Rightarrow> bool \<Rightarrow> PlayerStatus \<Rightarrow> PlayerData" where
  "newPlayerData p sid host st =
     \<lparr>socketId = sid, playerName = doc_playerName p, mainCar = doc_mainCar p,
      ownerCars = doc_ownerCars p, p_id = doc_id p, telegramId = doc_telegramId p,
      isHost = host, position = origin, rotation = origin, speed = 0, status = st,
      distance = 0, isLoaded = False\<rparr>"

definition createRoom_store :: "Env \<Rightarrow> Gateway \<Rightarrow> string \<Rightarrow> CreateRoomDto \<Rightarrow> Player \<Rightarrow> Gateway" where
  "createRoom_store d s sid dto p =
     (let v = (case cr_value dto of None \<Rightarrow> 0 | Some n \<Rightarrow> n);
          pw = (case cr_password dto of None \<Rightarrow> [] | Some w \<Rightarrow> w);
          c1 = RoomService_createRoom v pw [doc_id p] WAITING;
          c2 = PlayerService_updatePlayerSocket (doc_id p) sid True
      in case fails d c1 of
           Some e \<Rightarrow> sendError d s sid ''Failed to create room.'' (Some e)
         | None \<Rightarrow>
             let s1 = dbDo d c1 s in
             (case fails d c2 of
                Some e \<Rightarrow> sendError d s1 sid ''Failed to create room.'' (Some e)
              | None \<Rightarrow>
                  let s2 = dbDo d c2 s1;
                      hostPlayerData = newPlayerData p sid True Ready;
                      s3 = s2\<lparr>rooms := assignKey (nextId d)
                                \<lparr>roomId = nextId d, roomValue = Some v, password = Some pw,
                                 roomStatus = WAITING, players = [(sid, hostPlayerData)]\<rparr> (rooms s2),
                              clientPlayerMap := AList.update sid (doc_id p) (clientPlayerMap s2)\<rparr>;
                      s4 = sendToClient s3 sid
                             (roomDetails (nextId d) WAITING (Some v) 1 [hostPlayerData])
                  in broadcastRoomList s4))"

definition createRoom :: "Env \<Rightarrow> Gateway \<Rightarrow> string \<Rightarrow> CreateRoomDto payload \<Rightarrow> Gateway" where
  "createRoom d s sid data =
     (case data of
        Fields dto \<Rightarrow>
          (case fails d (PlayerService_getPlayerWithId (cr_playerId dto)) of
             Some e \<Rightarrow> sendError d s sid ''Failed to create room.'' (Some e)
           | None \<Rightarrow>
               (case playerModel d (cr_playerId dto) of
                  None \<Rightarrow> sendError d s sid ''Player not found.'' None
                | Some p \<Rightarrow>
                    (case truthy (existingRoomId (rooms s) (cr_playerId dto)) of
                       Some ex \<Rightarrow>
                         sendError d s sid (''Player is already in room '' @ ex @ ''.'') None
                     | None \<Rightarrow> createRoom_store d s sid dto p)))
      | _ \<Rightarrow> sendError d s sid
               (''Invalid data for createRoom. '' @ [CHR 0x60] @ ''playerId'' @ [CHR 0x60]
                  @ '' is required.'') None)"

text \<open>The catch block of joinRoom: the error reply, then the cleanup of the stored room.\<close>

definition joinRoom_failed :: "Env \<Rightarrow> Gateway \<Rightarrow> string \<Rightarrow> JoinRoomDto \<Rightarrow> string \<Rightarrow> Gateway" where
  "joinRoom_failed d s sid dto e =
     (let s1 = sendError d s sid ''Failed to join room.'' (Some e)
      in if fails d (RoomService_getRoomWithId (jr_roomID dto)) \<noteq> None then s1
         else (case roomInDb d (jr_roomID dto) of
                 None \<Rightarrow> s1
               | Some ps \<Rightarrow>
                   if jr_playerId dto \<in> set ps
                   then dbDo d (RoomService_leaveRoom (jr_roomID dto) (jr_playerId dto)) s1
                   else s1))"

definition joinRoom_store :: "Env \<Rightarrow> Gateway \<Rightarrow> string \<Rightarrow> JoinRoomDto \<Rightarrow> Player \<Rightarrow> Gateway" where
  "joinRoom_store d s sid dto player =
     (let roomID = jr_roomID dto;
          c1 = RoomService_addPlayerToRoom roomID (doc_id player);
          c2 = PlayerService_updatePlayerSocket (doc_id player) sid False
      in case fails d c1 of
           Some e \<Rightarrow> joinRoom_failed d s sid dto e
         | None \<Rightarrow>
             let s1 = dbDo d c1 s in
             (case fails d c2 of
                Some e \<Rightarrow> joinRoom_failed d s1 sid dto e
              | None \<Rightarrow>
                  let s2 = dbDo d c2 s1;
                      pd = newPlayerData player sid False Waiting;
                      s3 = s2\<lparr>rooms := AList.map_entry roomID
                                (\<lambda>room. room\<lparr>players := AList.update sid pd (players room)\<rparr>) (rooms s2),
                              clientPlayerMap := AList.update sid (doc_id player) (clientPlayerMap s2)\<rparr>
                  in (case map_of (rooms s3) roomID of
                        None \<Rightarrow> s3
                      | Some room \<Rightarrow>
                          let s4 = sendToClient s3 sid
                                     (roomDetails roomID (roomStatus room) (roomValue room)
                                        (length (players room)) (map snd (players room)));
                              s5 = broadcastToRoom s4 roomID
                                     (updatePlayers (map snd (players room))) (Some sid);
                              s6 = broadcastToRoom s5 roomID (playerJoined pd) (Some sid)
                          in broadcastRoomList s6)))"

definition MAX_PLAYERS :: nat where
  "MAX_PLAYERS = 5"

definition joinRoom :: "Env \<Rightarrow> Gateway \<Rightarrow> string \<Rightarrow> JoinRoomDto payload \<Rightarrow> Gateway" where
  "joinRoom d s sid data =
     (case data of
        Fields dto \<Rightarrow>
          (case map_of (rooms s) (jr_roomID dto) of
             None \<Rightarrow> sendError d s sid ''Room not found or is not active.'' None
           | Some room \<Rightarrow>
               if roomStatus room \<noteq> WAITING
               then sendError d s sid
                      ''Room is not waiting for players (already running or finished).'' None
               else if truthy (password room) \<noteq> None \<and> password room \<noteq> jr_password dto
               then sendError d s sid ''Incorrect password.'' None
               else (case fails d (PlayerService_getPlayerWithId (jr_playerId dto)) of
                       Some e \<Rightarrow> joinRoom_failed d s sid dto e
                     | None \<Rightarrow>
                         (case playerModel d (jr_playerId dto) of
                            None \<Rightarrow> sendError d s sid ''Player not found.'' None
                          | Some player \<Rightarrow>
                              if length (players room) \<ge> MAX_PLAYERS
                              then sendError d s sid ''Room is full.'' None
                              else (case truthy (existingRoomId (rooms s) (jr_playerId dto)) of
                                      Some ex \<Rightarrow>
                                        if ex = jr_roomID dto
                                        then sendError d s sid ''You are already in this room.'' None
                                        else sendError d s sid
                                               (''Player is already in another room ('' @ ex @ '').'') None
                                    | None \<Rightarrow> joinRoom_store d s sid dto player))))
      | _ \<Rightarrow> sendError d s sid
               (''Invalid data for joinRoom. '' @ [CHR 0x60] @ ''roomID'' @ [CHR 0x60] @ '' and ''
                  @ [CHR 0x60] @ ''playerId'' @ [CHR 0x60] @ '' are required.'') None)"

definition leaveRoom :: "Env \<Rightarrow> Gateway \<Rightarrow> string \<Rightarrow> Gateway" where
  "leaveRoom d s sid =
     (case findRoomOf (rooms s) sid of
        None \<Rightarrow> s
      | Some (roomIDToLeave, pl) \<Rightarrow>
          if roomIDToLeave = [] then s
          else
            (case truthy (map_of (clientPlayerMap s) sid) of
               None \<Rightarrow>
                 broadcastRoomList
                   ((removePlayer roomIDToLeave sid s)
                      \<lparr>clientPlayerMap := AList.delete sid (clientPlayerMap s)\<rparr>)
             | Some playerId \<Rightarrow>
                 let s1 = sendToClient s sid (leftRoom roomIDToLeave);
                     s2 = (removePlayer roomIDToLeave sid s1)
                            \<lparr>clientPlayerMap := AList.delete sid (clientPlayerMap s1)\<rparr>;
                     c1 = RoomService_leaveRoom roomIDToLeave playerId
                 in if fails d c1 \<noteq> None then s2
                    else
                      let s3 = dbDo d c1 s2 in
                      if isHost pl
                      then
                        let s4 = broadcastToRoom s3 roomIDToLeave (roomClosed ''Host left'') None;
                            s5 = s4\<lparr>rooms := AList.delete roomIDToLeave (rooms s4)\<rparr>;
                            c2 = RoomService_deleteRoom roomIDToLeave
                        in if fails d c2 \<noteq> None then s5
                           else broadcastRoomList (dbDo d c2 s5)
                      else
                        (case map_of (rooms s3) roomIDToLeave of
                           None \<Rightarrow> broadcastRoomList s3
                         | Some room \<Rightarrow>
                             let s4 = broadcastToRoom s3 roomIDToLeave
                                        (updatePlayers (map snd (players room))) None;
                                 s5 = broadcastToRoom s4 roomIDToLeave
                                        (playerLeft_socketId sid playerId) None
                             in broadcastRoomList s5)))"

definition kickPlayer :: "Env \<Rightarrow> Gateway \<Rightarrow> string \<Rightarrow> KickPlayerDto payload \<Rightarrow> Gateway" where
  "kickPlayer d s sid data =
     (case data of
        Fields dto \<Rightarrow>
          (let roomID = kp_roomID dto; targetSocketID = kp_targetSocketID dto in
          if sid = targetSocketID then sendError d s sid ''You cannot kick yourself.'' None
          else
            (case map_of (rooms s) roomID of
               None \<Rightarrow> sendError d s sid ''Room not found.'' None
             | Some room \<Rightarrow>
                 if (case map_of (players room) sid of None \<Rightarrow> True | Some k \<Rightarrow> \<not> isHost k)
                 then sendError d s sid ''Only the host can kick players.'' None
                 else
                   (case map_of (players room) targetSocketID of
                      None \<Rightarrow> sendError d s sid ''Target player not found in this room.'' None
                    | Some targetPlayer \<Rightarrow>
                        let s1 = sendToClient s targetSocketID (kicked roomID ''Kicked by host'');
                            s2 = (removePlayer roomID targetSocketID s1)
                                   \<lparr>clientPlayerMap := AList.delete targetSocketID (clientPlayerMap s1)\<rparr>;
                            c1 = RoomService_leaveRoom roomID (p_id targetPlayer)
                        in (case fails d c1 of
                              Some e \<Rightarrow> sendError d s2 sid ''Failed to kick player.'' (Some e)
                            | None \<Rightarrow>
                                let s3 = dbDo d c1 s2;
                                    remaining = (case map_of (rooms s3) roomID of
                                                   None \<Rightarrow> [] | Some r \<Rightarrow> map snd (players r));
                                    s4 = broadcastToRoom s3 roomID (updatePlayers remaining) None;
                                    s5 = broadcastToRoom s4 roomID
                                           (playerKicked targetSocketID (p_id targetPlayer)) None
                                in broadcastRoomList s5))))
      | _ \<Rightarrow> sendError d s sid
               (''Invalid data for kickPlayer. '' @ [CHR 0x60] @ ''roomID'' @ [CHR 0x60] @ '' and ''
                  @ [CHR 0x60] @ ''targetSocketID'' @ [CHR 0x60] @ '' are required.'') None)"

text \<open>Mutation of the player object stored under a connection in a room.\<close>

definition updatePlayer :: "string \<Rightarrow> string \<Rightarrow> (PlayerData \<Rightarrow> PlayerData) \<Rightarrow> Gateway \<Rightarrow> Gateway" where
  "updatePlayer roomID sid f s =
     s\<lparr>rooms := AList.map_entry roomID
          (\<lambda>room. room\<lparr>players := AList.map_entry sid f (players room)\<rparr>) (rooms s)\<rparr>"

definition roomPlayers :: "Gateway \<Rightarrow> string \<Rightarrow> PlayerData list" where
  "roomPlayers s roomID =
     (case map_of (rooms s) roomID of None \<Rightarrow> [] | Some room \<Rightarrow> map snd (players room))"

text \<open>
  The test that playerReady, playerChangeCar and loadingGame apply to the sender: it has
  a player object in the room, and both that object and the connection-to-player map
  carry the player id of the message.
\<close>

definition senderPlayer :: "Gateway \<Rightarrow> RoomData \<Rightarrow> string \<Rightarrow> string \<Rightarrow> PlayerData option" where
  "senderPlayer s room sid playerID =
     (case map_of (players room) sid of
        None \<Rightarrow> None
      | Some player \<Rightarrow>
          if p_id player \<noteq> playerID \<or> map_of (clientPlayerMap s) sid \<noteq> Some playerID
          then None else Some player)"

definition playerReady :: "Env \<Rightarrow> Gateway \<Rightarrow> string \<Rightarrow> PlayerReadyDto payload \<Rightarrow> Gateway" where
  "playerReady d s sid data =
     (case data of
        Fields dto \<Rightarrow>
          (let roomID = pr_roomID dto in
           case map_of (rooms s) roomID of
             None \<Rightarrow> s
           | Some room \<Rightarrow>
               if roomStatus room \<noteq> WAITING
               then sendError d s sid ''Cannot change ready status now.'' None
               else
                 (case senderPlayer s room sid (pr_playerID dto) of
                    None \<Rightarrow> sendError d s sid ''Player mismatch or not found in room.'' None
                  | Some player \<Rightarrow>
                      if status player = Ready then s
                      else
                        let s1 = updatePlayer roomID sid (\<lambda>p. p\<lparr>status := Ready\<rparr>) s;
                            c1 = PlayerService_updatePlayerStatus (p_id player) Ready
                        in (case fails d c1 of
                              Some e \<Rightarrow>
                                let s2 = sendError d s1 sid ''Failed to set ready status.'' (Some e);
                                    s3 = updatePlayer roomID sid (\<lambda>p. p\<lparr>status := Ready\<rparr>) s2
                                in broadcastToRoom s3 roomID (updatePlayers (roomPlayers s3 roomID)) None
                            | None \<Rightarrow>
                                let s2 = dbDo d c1 s1;
                                    s3 = broadcastToRoom s2 roomID
                                           (updatePlayers (roomPlayers s2 roomID)) None
                                in broadcastToRoom s3 roomID (playerIsReady sid (p_id player)) None)))
      | _ \<Rightarrow> sendError d s sid
               (''Invalid data for playerReady. '' @ [CHR 0x60] @ ''roomID'' @ [CHR 0x60] @ '' and ''
                  @ [CHR 0x60] @ ''playerID'' @ [CHR 0x60] @ '' are required.'') None)"

definition playerChangeCar :: "Env \<Rightarrow> Gateway \<Rightarrow> string \<Rightarrow> PlayerChangeCarDto payload \<Rightarrow> Gateway" where
  "playerChangeCar d s sid data =
     (case data of
        Fields dto \<Rightarrow>
          (let roomID = cc_roomID dto in
           case map_of (rooms s) roomID of
             None \<Rightarrow> s
           | Some room \<Rightarrow>
               if roomStatus room \<noteq> WAITING
               then sendError d s sid ''Cannot change car now.'' None
               else
                 (case senderPlayer s room sid (cc_playerID dto) of
                    None \<Rightarrow> sendError d s sid ''Player mismatch or not found in room.'' None
                  | Some player \<Rightarrow>
                      if mainCar player = cc_mainCar dto then s
                      else if \<not> list_ex (\<lambda>carEntry. car_id carEntry = cc_mainCar dto) (ownerCars player)
                      then sendError d s sid ''You do not own this car.'' None
                      else
                        let s1 = updatePlayer roomID sid (\<lambda>p. p\<lparr>mainCar := cc_mainCar dto\<rparr>) s;
                            c1 = PlayerService_updateMainCar (p_id player) (cc_mainCar dto)
                        in (case fails d c1 of
                              Some e \<Rightarrow> sendError d s1 sid ''Failed to change car.'' (Some e)
                            | None \<Rightarrow>
                                let s2 = dbDo d c1 s1
                                in broadcastToRoom s2 roomID
                                     (updatePlayers (roomPlayers s2 roomID)) None)))
      | _ \<Rightarrow> sendError d s sid
               (''Invalid data for playerChangeCar. '' @ [CHR 0x60] @ ''roomID'' @ [CHR 0x60] @ '', ''
                  @ [CHR 0x60] @ ''playerID'' @ [CHR 0x60] @ '', and '' @ [CHR 0x60] @ ''mainCar''
                  @ [CHR 0x60] @ '' (number) are required.'') None)"

definition setRoomStatus :: "string \<Rightarrow> RoomStatus \<Rightarrow> Gateway \<Rightarrow> Gateway" where
  "setRoomStatus roomID st s =
     s\<lparr>rooms := AList.map_entry roomID (\<lambda>room. room\<lparr>roomStatus := st\<rparr>) (rooms s)\<rparr>"

text \<open>
  The loop of updateStatusWaitingRoom over the players: every player that is not the
  host is set to Waiting and stored; the loop ends where a store call throws. The
  result is the players, the store calls that returned, and whether the loop ended
  without a throw.
\<close>

fun resetToWaiting ::
  "Env \<Rightarrow> (string \<times> PlayerData) list \<Rightarrow> (string \<times> PlayerData) list \<times> DbCall list \<times> bool" where
  "resetToWaiting d [] = ([], [], True)"
| "resetToWaiting d ((k, p) # ps) =
     (if isHost p
      then (case resetToWaiting d ps of (ps', l, ok) \<Rightarrow> ((k, p) # ps', l, ok))
      else
        (if fails d (PlayerService_updatePlayerStatus (p_id p) Waiting) \<noteq> None
         then ((k, p\<lparr>status := Waiting\<rparr>) # ps, [], False)
         else (case resetToWaiting d ps of
                 (ps', l, ok) \<Rightarrow>
                   ((k, p\<lparr>status := Waiting\<rparr>) # ps',
                    PlayerService_updatePlayerStatus (p_id p) Waiting # l, ok))))"

definition updateStatusWaitingRoom :: "Env \<Rightarrow> Gateway \<Rightarrow> string \<Rightarrow> WaitingRoomDto payload \<Rightarrow> Gateway" where
  "updateStatusWaitingRoom d s sid data =
     (case data of
        Fields dto \<Rightarrow>
          (let roomID = wr_roomID dto in
           case map_of (rooms s) roomID of
             None \<Rightarrow> sendError d s sid ''Room not found.'' None
           | Some room \<Rightarrow>
               if (case map_of (players room) sid of None \<Rightarrow> True | Some p \<Rightarrow> \<not> isHost p)
               then sendError d s sid ''Only the host can change status in the game.'' None
               else
                 let s1 = setRoomStatus roomID WAITING s;
                     c1 = RoomService_updateRoomStatus roomID WAITING
                 in if fails d c1 \<noteq> None then s1
                    else
                      (case resetToWaiting d (players room) of
                         (ps', l, ok) \<Rightarrow>
                           let s2 = dbDo d c1 s1;
                               s3 = s2\<lparr>rooms := AList.map_entry roomID
                                         (\<lambda>r. r\<lparr>players := ps'\<rparr>) (rooms s2),
                                       dblog := dblog s2 @ l\<rparr>
                           in if \<not> ok then s3
                              else
                                let s4 = broadcastToRoom s3 roomID (updateWaitingRoom roomID WAITING) None;
                                    s5 = broadcastToRoom s4 roomID
                                           (updatePlayers (roomPlayers s4 roomID)) None
                                in broadcastRoomList s5))
      | _ \<Rightarrow> sendError d s sid
               (''Invalid data for waiting room. '' @ [CHR 0x60] @ ''roomID'' @ [CHR 0x60]
                  @ '' are required.'') None)"

definition MIN_PLAYERS :: nat where
  "MIN_PLAYERS = 1"

definition allReady :: "RoomData \<Rightarrow> bool" where
  "allReady room = list_all (\<lambda>p. status p = Ready) (map snd (players room))"

text \<open>Step 2 of the start sequence, applied to every player of the room.\<close>

definition resetGameState :: "PlayerData \<Rightarrow> PlayerData" where
  "resetGameState p =
     p\<lparr>isLoaded := False, distance := 0, position := origin, rotation := origin, speed := 0\<rparr>"

definition startedPlayer :: "PlayerData \<Rightarrow> StartedPlayer" where
  "startedPlayer p =
     \<lparr>st_socketId = socketId p, st_playerId = p_id p, st_playerName = playerName p,
      st_mainCar = mainCar p, st_isHost = isHost p, st_position = position p,
      st_rotation = rotation p\<rparr>"

text \<open>The catch block of startGame.\<close>

definition startGame_failed :: "Env \<Rightarrow> Gateway \<Rightarrow> string \<Rightarrow> string \<Rightarrow> string \<Rightarrow> Gateway" where
  "startGame_failed d s sid roomID e =
     (let s1 = sendError d s sid ''Failed to start game.'' (Some e)
      in case map_of (rooms s1) roomID of
           None \<Rightarrow> s1
         | Some room \<Rightarrow>
             if roomStatus room \<noteq> RUNNING then s1
             else
               let s2 = s1\<lparr>rooms := AList.map_entry roomID
                              (\<lambda>r. r\<lparr>roomStatus := WAITING,
                                     players := map (apsnd (\<lambda>p. p\<lparr>status := Ready\<rparr>)) (players r)\<rparr>)
                              (rooms s1)\<rparr>;
                   c = RoomService_updateRoomStatus roomID WAITING
               in if fails d c \<noteq> None then s2
                  else broadcastToRoom (broadcastRoomList (dbDo d c s2)) roomID gameStartFailed None)"

definition startGame :: "Env \<Rightarrow> Gateway \<Rightarrow> string \<Rightarrow> StartGameDto payload \<Rightarrow> Gateway" where
  "startGame d s sid data =
     (case data of
        Fields dto \<Rightarrow>
          (let roomID = sg_roomID dto in
           case map_of (rooms s) roomID of
             None \<Rightarrow> sendError d s sid ''Room not found.'' None
           | Some room \<Rightarrow>
               if (case map_of (players room) sid of None \<Rightarrow> True | Some p \<Rightarrow> \<not> isHost p)
               then sendError d s sid ''Only the host can start the game.'' None
               else if roomStatus room \<noteq> WAITING
               then sendError d s sid ''Game cannot be started (not in WAITING state).'' None
               else if length (players room) < MIN_PLAYERS
               then sendError d s sid ''Need at least 1 player(s) to start.'' None
               else if \<not> allReady room
               then sendToClient (sendError d s sid ''Not all players are ready.'' None) sid
                      (playersNotReady
                         (map playerName (filter (\<lambda>p. status p \<noteq> Ready) (map snd (players room)))))
               else
                 let s1 = setRoomStatus roomID RUNNING s;
                     c1 = RoomService_updateRoomStatus roomID RUNNING
                 in (case fails d c1 of
                       Some e \<Rightarrow> startGame_failed d s1 sid roomID e
                     | None \<Rightarrow>
                         let s2 = dbDo d c1 s1;
                             s3 = s2\<lparr>rooms := AList.map_entry roomID
                                       (\<lambda>r. r\<lparr>players := map (apsnd resetGameState) (players r)\<rparr>)
                                       (rooms s2)\<rparr>;
                             s4 = broadcastToRoom s3 roomID
                                    (gameStarted roomID (sg_map dto) RUNNING
                                       (map startedPlayer (roomPlayers s3 roomID))) None
                         in broadcastRoomList s4))
      | _ \<Rightarrow> sendError d s sid
               (''Invalid data for startGame. '' @ [CHR 0x60] @ ''roomID'' @ [CHR 0x60] @ '' and ''
                  @ [CHR 0x60] @ ''map'' @ [CHR 0x60] @ '' (number) are required.'') None)"

text \<open>
  startGame up to its first await: the validation, the guards and the assignment of
  status Running. The result is the state at the await and, when the handler is
  suspended there, the room id and the map it resumes with; \<open>None\<close> when it has
  returned.
\<close>

definition startGame_suspend ::
  "Env \<Rightarrow> Gateway \<Rightarrow> string \<Rightarrow> StartGameDto payload \<Rightarrow> Gateway \<times> (string \<times> number) option" where
  "startGame_suspend d s sid data =
     (case data of
        Fields dto \<Rightarrow>
          (let roomID = sg_roomID dto in
           case map_of (rooms s) roomID of
             None \<Rightarrow> (sendError d s sid ''Room not found.'' None, None)
           | Some room \<Rightarrow>
               if (case map_of (players room) sid of None \<Rightarrow> True | Some p \<Rightarrow> \<not> isHost p)
               then (sendError d s sid ''Only the host can start the game.'' None, None)
               else if roomStatus room \<noteq> WAITING
               then (sendError d s sid ''Game cannot be started (not in WAITING state).'' None, None)
               else if length (players room) < MIN_PLAYERS
               then (sendError d s sid ''Need at least 1 player(s) to start.'' None, None)
               else if \<not> allReady room
               then (sendToClient (sendError d s sid ''Not all players are ready.'' None) sid
                       (playersNotReady
                          (map playerName (filter (\<lambda>p. status p \<noteq> Ready) (map snd (players room))))),
                     None)
               else (setRoomStatus roomID RUNNING s, Some (roomID, sg_map dto)))
      | _ \<Rightarrow> (sendError d s sid
                (''Invalid data for startGame. '' @ [CHR 0x60] @ ''roomID'' @ [CHR 0x60] @ '' and ''
                   @ [CHR 0x60] @ ''map'' @ [CHR 0x60] @ '' (number) are required.'') None, None))"

text \<open>
  startGame from the moment its awaited updateRoomStatus settles, in the state the
  gateway is in by then: on a throw the catch block, otherwise the reset of every
  player of the room, the gameStarted broadcast with the room's status and players as
  they are now, and the room list.
\<close>

definition startGame_resume :: "Env \<Rightarrow> Gateway \<Rightarrow> string \<Rightarrow> string \<Rightarrow> number \<Rightarrow> Gateway" where
  "startGame_resume d s sid roomID m =
     (let c1 = RoomService_updateRoomStatus roomID RUNNING
      in case fails d c1 of
           Some e \<Rightarrow> startGame_failed d s sid roomID e
         | None \<Rightarrow>
             let s2 = dbDo d c1 s;
                 s3 = s2\<lparr>rooms := AList.map_entry roomID
                           (\<lambda>r. r\<lparr>players := map (apsnd resetGameState) (players r)\<rparr>)
                           (rooms s2)\<rparr>
             in (case map_of (rooms s3) roomID of
                   None \<Rightarrow> broadcastRoomList s3
                 | Some room \<Rightarrow>
                     broadcastRoomList
                       (broadcastToRoom s3 roomID
                          (gameStarted roomID m (roomStatus room)
                             (map startedPlayer (map snd (players room)))) None)))"

definition loadingGame :: "Gateway \<Rightarrow> string \<Rightarrow> LoadingGameDto payload \<Rightarrow> Gateway" where
  "loadingGame s sid data =
     (case data of
        Fields dto \<Rightarrow>
          (let roomID = lg_roomID dto in
           case map_of (rooms s) roomID of
             None \<Rightarrow> s
           | Some room \<Rightarrow>
               if roomStatus room \<noteq> RUNNING then s
               else
                 (case senderPlayer s room sid (lg_playerID dto) of
                    None \<Rightarrow> s
                  | Some player \<Rightarrow>
                      if isLoaded player then s
                      else
                        let s1 = updatePlayer roomID sid (\<lambda>p. p\<lparr>isLoaded := True, status := Ready\<rparr>) s;
                            s2 = broadcastToRoom s1 roomID (updatePlayers (roomPlayers s1 roomID)) None;
                            allPlayersInRoom = roomPlayers s2 roomID
                        in if length allPlayersInRoom > 0 \<and> list_all isLoaded allPlayersInRoom
                           then broadcastToRoom s2 roomID (allPlayersLoaded roomID) None
                           else s2))
      | _ \<Rightarrow> s)"

text \<open>
  syncPosition and syncCarPosition destructure \<^verbatim>\<open>data\<close> before they validate it: with
  no data object the destructuring throws a TypeError, which leaves the handler.
\<close>

datatype Thrown = TypeError

definition syncPosition :: "Gateway \<Rightarrow> string \<Rightarrow> PositionSyncDto payload \<Rightarrow> Thrown + Gateway" where
  "syncPosition s sid data =
     (case data of
        NoData \<Rightarrow> Inl TypeError
      | BadFields \<Rightarrow> Inr s
      | Fields dto \<Rightarrow>
          Inr (case ps_roomID dto of
                 NoRoomID \<Rightarrow> s
               | RoomKey roomID \<Rightarrow>
                 (case map_of (rooms s) roomID of
                    None \<Rightarrow> s
                  | Some room \<Rightarrow>
                      if roomStatus room \<noteq> RUNNING then s
                      else
                        (case map_of (players room) sid of
                           None \<Rightarrow> s
                         | Some player \<Rightarrow>
                             let move = (\<lambda>p. p\<lparr>position := ps_position dto,
                                                   rotation := ps_rotation dto,
                                                   speed := ps_speed dto,
                                                   distance := (case ps_distance dto of
                                                                  None \<Rightarrow> distance p
                                                                | Some dv \<Rightarrow> dv)\<rparr>);
                                 s1 = updatePlayer roomID sid move s;
                                 player' = move player
                             in broadcastToRoom s1 roomID
                                  (playerPositionUpdate sid (position player') (rotation player')
                                     (speed player') (distance player')) (Some sid)))))"

definition syncCarPosition :: "Gateway \<Rightarrow> string \<Rightarrow> PositionSyncDto payload \<Rightarrow> Thrown + Gateway" where
  "syncCarPosition s sid data =
     (case data of
        NoData \<Rightarrow> Inl TypeError
      | BadFields \<Rightarrow> Inr s
      | Fields dto \<Rightarrow>
          Inr (case ps_roomID dto of
                 NoRoomID \<Rightarrow> s
               | RoomKey roomID \<Rightarrow>
                 (case map_of (rooms s) roomID of
                    None \<Rightarrow> s
                  | Some room \<Rightarrow>
                      if roomStatus room \<noteq> RUNNING then s
                      else
                        (case map_of (players room) sid of
                           None \<Rightarrow> s
                         | Some player \<Rightarrow>
                             broadcastToRoom s roomID
                               (carPositionUpdate sid (ps_position dto) (ps_rotation dto)
                                  (ps_speed dto)) (Some sid)))))"

section \<open>The message router and the socket listeners\<close>

text \<open>
  A parsed envelope whose \<^verbatim>\<open>event\<close> is a string, by event tag; \<open>E_other\<close> is any tag
  without a handler.
\<close>

datatype WebSocketMessage =
    E_createRoom "CreateRoomDto payload"
  | E_joinRoom "JoinRoomDto payload"
  | E_leaveRoom
  | E_kickPlayer "KickPlayerDto payload"
  | E_startGame "StartGameDto payload"
  | E_loadingGame "LoadingGameDto payload"
  | E_playerReady "PlayerReadyDto payload"
  | E_playerChangeCar "PlayerChangeCarDto payload"
  | E_syncPosition "PositionSyncDto payload"
  | E_syncCarPosition "PositionSyncDto payload"
  | E_ping_check
  | E_waitingRoom "WaitingRoomDto payload"
  | E_other string

text \<open>
  What arrives on a socket: text that is empty or not JSON (\<open>Unparseable\<close>), JSON that
  is null or has no string \<^verbatim>\<open>event\<close> (\<open>Malformed\<close>), or an envelope.
\<close>

datatype RawMessage = Unparseable | Malformed | Envelope WebSocketMessage

fun handleMessage :: "Env \<Rightarrow> Gateway \<Rightarrow> string \<Rightarrow> WebSocketMessage \<Rightarrow> Thrown + Gateway" where
  "handleMessage d s sid (E_createRoom data) = Inr (createRoom d s sid data)"
| "handleMessage d s sid (E_joinRoom data) = Inr (joinRoom d s sid data)"
| "handleMessage d s sid E_leaveRoom = Inr (leaveRoom d s sid)"
| "handleMessage d s sid (E_kickPlayer data) = Inr (kickPlayer d s sid data)"
| "handleMessage d s sid (E_startGame data) = Inr (startGame d s sid data)"
| "handleMessage d s sid (E_loadingGame data) = Inr (loadingGame s sid data)"
| "handleMessage d s sid (E_playerReady data) = Inr (playerReady d s sid data)"
| "handleMessage d s sid (E_playerChangeCar data) = Inr (playerChangeCar d s sid data)"
| "handleMessage d s sid (E_syncPosition data) = syncPosition s sid data"
| "handleMessage d s sid (E_syncCarPosition data) = syncCarPosition s sid data"
| "handleMessage d s sid E_ping_check = Inr (sendToClient s sid ping_response)"
| "handleMessage d s sid (E_waitingRoom data) = Inr (updateStatusWaitingRoom d s sid data)"
| "handleMessage d s sid (E_other event) =
     Inr (sendError d s sid (''Unknown event type: '' @ event) None)"

text \<open>The listener for \<^verbatim>\<open>message\<close>: parse, route, and answer whatever is thrown.\<close>

definition onMessage :: "Env \<Rightarrow> Gateway \<Rightarrow> string \<Rightarrow> RawMessage \<Rightarrow> Gateway" where
  "onMessage d s sid raw =
     (case raw of
        Unparseable \<Rightarrow> sendError d s sid ''Invalid message format'' None
      | Malformed \<Rightarrow>
          sendError d s sid
            ''Malformed message structure. Expecting { event: string, data: any }'' None
      | Envelope message \<Rightarrow>
          (case handleMessage d s sid message of
             Inl thrown \<Rightarrow> sendError d s sid ''Invalid message format'' None
           | Inr s' \<Rightarrow> s'))"

text \<open>What the server's sockets deliver: a new connection, a message, a close, an error.\<close>

datatype Stimulus =
    on_connection string
  | on_message string RawMessage
  | on_close string
  | on_error string

fun step :: "Gateway \<Rightarrow> Env \<times> Stimulus \<Rightarrow> Gateway" where
  "step s (d, on_connection sid) = handleConnection s sid"
| "step s (d, on_message sid raw) = onMessage d s sid raw"
| "step s (d, on_close sid) = handleDisconnect d s sid"
| "step s (d, on_error sid) = handleDisconnect d s sid"

definition run :: "Gateway \<Rightarrow> (Env \<times> Stimulus) list \<Rightarrow> Gateway" where
  "run s evs = foldl step s evs"

section \<open>Observations used by the claims\<close>

text \<open>The room stored under a key is in status Running.\<close>

definition running :: "Gateway \<Rightarrow> string \<Rightarrow> bool" where
  "running s roomID =
     (case map_of (rooms s) roomID of None \<Rightarrow> False | Some room \<Rightarrow> roomStatus room = RUNNING)"

text \<open>Every player object of the room stored under a key has its load flag set.\<close>

definition allLoaded :: "Gateway \<Rightarrow> string \<Rightarrow> bool" where
  "allLoaded s roomID = list_all isLoaded (roomPlayers s roomID)"

text \<open>
  What a handler may do to a Running room \<open>r0\<close> without taking a load flag back: the
  room stored under the key afterwards (if any, and if Running) has every load flag set
  when \<open>r0\<close> had.
\<close>

definition keepsLoaded :: "RoomData \<Rightarrow> RoomData option \<Rightarrow> bool" where
  "keepsLoaded r0 x =
     (case x of
        None \<Rightarrow> True
      | Some r' \<Rightarrow>
          roomStatus r' = RUNNING \<longrightarrow>
          list_all isLoaded (map snd (players r0)) \<longrightarrow> list_all isLoaded (map snd (players r')))"

text \<open>How many times allPlayersLoaded has been broadcast for a room.\<close>

definition aplCount :: "string \<Rightarrow> Gateway \<Rightarrow> nat" where
  "aplCount roomID s = length (filter (\<lambda>t. snd t = allPlayersLoaded roomID) (outbox s))"

text \<open>
  A Running episode of a room: the room is Running in the state the stimuli start from
  and in the state after each of them.
\<close>

fun episode :: "string \<Rightarrow> Gateway \<Rightarrow> (Env \<times> Stimulus) list \<Rightarrow> bool" where
  "episode roomID s [] = running s roomID"
| "episode roomID s (ev # evs) = (running s roomID \<and> episode roomID (step s ev) evs)"

text \<open>The rooms, by key, in which a connection has a player object.\<close>

definition roomsOf :: "Gateway \<Rightarrow> string \<Rightarrow> string list" where
  "roomsOf s sid = map fst (filter (\<lambda>kr. map_of (players (snd kr)) sid \<noteq> None) (rooms s))"

section \<open>Example states\<close>

definition ex_car :: "number \<Rightarrow> PlayerCarEntry" where
  "ex_car n = \<lparr>car_id = n, car_model = ''gt'', car_brand = ''acme'', car_name = ''bolt''\<rparr>"

definition ex_alice :: Player where
  "ex_alice = \<lparr>doc_id = ''p1'', doc_telegramId = ''t1'', doc_playerName = ''alice'',
               doc_mainCar = 1, doc_ownerCars = [ex_car 1, ex_car 2]\<rparr>"

definition ex_bob :: Player where
  "ex_bob = \<lparr>doc_id = ''p2'', doc_telegramId = ''t2'', doc_playerName = ''bob'',
             doc_mainCar = 7, doc_ownerCars = []\<rparr>"

definition ex_store :: Env where
  "ex_store = \<lparr>playerModel = (\<lambda>i. if i = ''p1'' then Some ex_alice
                                  else if i = ''p2'' then Some ex_bob else None),
               nextId = ''1'', roomInDb = (\<lambda>r. None), fails = (\<lambda>c. None), production = False\<rparr>"

definition ex_store_down :: Env where
  "ex_store_down = ex_store\<lparr>fails := (\<lambda>c. Some ''store down'')\<rparr>"

text \<open>
  A store that holds no record of room 1: RoomService.leaveRoom finds nothing to update
  and throws, every other call answers.
\<close>

definition ex_store_no_record :: Env where
  "ex_store_no_record =
     ex_store\<lparr>fails := (\<lambda>c. if c = RoomService_leaveRoom ''1'' ''p1''
                            then Some ''Room not found'' else None)\<rparr>"

definition ex_connected :: Gateway where
  "ex_connected = \<lparr>clients = [(''c1'', OPEN), (''c2'', OPEN)], clientPlayerMap = [],
                   rooms = [], outbox = [], dblog = []\<rparr>"

definition ex_room :: RoomData where
  "ex_room = \<lparr>roomId = ''1'', roomValue = Some 100, password = Some ''secret'',
              roomStatus = WAITING,
              players = [(''c1'', newPlayerData ex_alice ''c1'' True Ready),
                         (''c2'', newPlayerData ex_bob ''c2'' False Ready)]\<rparr>"

text \<open>One room in Waiting, alice (c1) its host, bob (c2) joined and ready.\<close>

definition ex_lobby :: Gateway where
  "ex_lobby = \<lparr>clients = [(''c1'', OPEN), (''c2'', OPEN)],
               clientPlayerMap = [(''c1'', ''p1''), (''c2'', ''p2'')],
               rooms = [(''1'', ex_room)], outbox = [], dblog = []\<rparr>"

text \<open>The same room after a start: Running, nobody loaded yet.\<close>

definition ex_race :: Gateway where
  "ex_race = ex_lobby\<lparr>rooms := [(''1'', ex_room\<lparr>roomStatus := RUNNING\<rparr>)]\<rparr>"

text \<open>A room in Waiting without a password that holds only its host alice (c1).\<close>

definition ex_solo :: Gateway where
  "ex_solo = \<lparr>clients = [(''c1'', OPEN), (''c2'', OPEN)],
              clientPlayerMap = [(''c1'', ''p1'')],
              rooms = [(''1'', \<lparr>roomId = ''1'', roomValue = Some 100, password = Some [],
                               roomStatus = WAITING,
                               players = [(''c1'', newPlayerData ex_alice ''c1'' True Ready)]\<rparr>)],
              outbox = [], dblog = []\<rparr>"

text \<open>A store that rejects the write of status Running for room 1 and accepts every other call.\<close>

definition ex_store_flaky :: Env where
  "ex_store_flaky =
     ex_store\<lparr>fails := (\<lambda>c. if c = RoomService_updateRoomStatus ''1'' RUNNING
                            then Some ''write failed'' else None)\<rparr>"

text \<open>The stimulus: a connection reports that a player has finished loading room 1.\<close>

definition ex_loading :: "string \<Rightarrow> string \<Rightarrow> Env \<times> Stimulus" where
  "ex_loading sid playerID =
     (ex_store, on_message sid
        (Envelope (E_loadingGame (Fields \<lparr>lg_roomID = ''1'', lg_playerID = playerID\<rparr>))))"

text \<open>
  Room 1 after a first race and a reset: Waiting again, alice (c1) still carries the
  load flag of the first race, bob (c2) joined after the reset and is ready.
\<close>

definition ex_second_round :: Gateway where
  "ex_second_round =
     \<lparr>clients = [(''c1'', OPEN), (''c2'', OPEN)],
      clientPlayerMap = [(''c1'', ''p1''), (''c2'', ''p2'')],
      rooms = [(''1'', \<lparr>roomId = ''1'', roomValue = Some 100, password = Some [],
                       roomStatus = WAITING,
                       players = [(''c1'', (newPlayerData ex_alice ''c1'' True Ready)\<lparr>isLoaded := True\<rparr>),
                                  (''c2'', (newPlayerData ex_bob ''c2'' False Ready))]\<rparr>)],
      outbox = [], dblog = []\<rparr>"

text \<open>The messages, one after the other, that lead from two open connections to that room.\<close>

definition ex_first_round :: "(Env \<times> Stimulus) list" where
  "ex_first_round =
     [(ex_store, on_message ''c1'' (Envelope (E_createRoom
         (Fields \<lparr>cr_value = Some 100, cr_password = None, cr_playerId = ''p1''\<rparr>)))),
      (ex_store, on_message ''c1'' (Envelope (E_startGame (Fields \<lparr>sg_roomID = ''1'', sg_map = 3\<rparr>)))),
      ex_loading ''c1'' ''p1'',
      (ex_store, on_message ''c1'' (Envelope (E_waitingRoom (Fields \<lparr>wr_roomID = ''1''\<rparr>)))),
      (ex_store, on_message ''c2'' (Envelope (E_joinRoom
         (Fields \<lparr>jr_roomID = ''1'', jr_playerId = ''p2'', jr_password = None\<rparr>)))),
      (ex_store, on_message ''c2'' (Envelope (E_playerReady
         (Fields \<lparr>pr_roomID = ''1'', pr_playerID = ''p2''\<rparr>))))]"

section \<open>Frame lemmas for the sending functions\<close>

text \<open>
  Sending and broadcasting only append to the outbox; a store call only appends to the
  log of store calls.
\<close>

lemma sendToClient_eq:
  "sendToClient s c m =
     s\<lparr>outbox := outbox s @ (if map_of (clients s) c = Some OPEN then [([c], m)] else [])\<rparr>"
  by (simp add: sendToClient_def)

lemma rooms_sendToClient [simp]: "rooms (sendToClient s c m) = rooms s"
  by (simp add: sendToClient_def)

lemma clients_sendToClient [simp]: "clients (sendToClient s c m) = clients s"
  by (simp add: sendToClient_def)

lemma cpm_sendToClient [simp]: "clientPlayerMap (sendToClient s c m) = clientPlayerMap s"
  by (simp add: sendToClient_def)

lemma dblog_sendToClient [simp]: "dblog (sendToClient s c m) = dblog s"
  by (simp add: sendToClient_def)

lemma rooms_sendError [simp]: "rooms (sendError d s c m e) = rooms s"
  by (simp add: sendError_def)

lemma clients_sendError [simp]: "clients (sendError d s c m e) = clients s"
  by (simp add: sendError_def)

lemma cpm_sendError [simp]: "clientPlayerMap (sendError d s c m e) = clientPlayerMap s"
  by (simp add: sendError_def)

lemma dblog_sendError [simp]: "dblog (sendError d s c m e) = dblog s"
  by (simp add: sendError_def)

lemma rooms_broadcastToAll [simp]: "rooms (broadcastToAll s m e) = rooms s"
  by (simp add: broadcastToAll_def)

lemma clients_broadcastToAll [simp]: "clients (broadcastToAll s m e) = clients s"
  by (simp add: broadcastToAll_def)

lemma cpm_broadcastToAll [simp]: "clientPlayerMap (broadcastToAll s m e) = clientPlayerMap s"
  by (simp add: broadcastToAll_def)

lemma dblog_broadcastToAll [simp]: "dblog (broadcastToAll s m e) = dblog s"
  by (simp add: broadcastToAll_def)

lemma rooms_broadcastToRoom [simp]: "rooms (broadcastToRoom s r m e) = rooms s"
  by (simp add: broadcastToRoom_def split: option.splits)

lemma clients_broadcastToRoom [simp]: "clients (broadcastToRoom s r m e) = clients s"
  by (simp add: broadcastToRoom_def split: option.splits)

lemma cpm_broadcastToRoom [simp]: "clientPlayerMap (broadcastToRoom s r m e) = clientPlayerMap s"
  by (simp add: broadcastToRoom_def split: option.splits)

lemma dblog_broadcastToRoom [simp]: "dblog (broadcastToRoom s r m e) = dblog s"
  by (simp add: broadcastToRoom_def split: option.splits)

lemma rooms_broadcastRoomList [simp]: "rooms (broadcastRoomList s) = rooms s"
  by (simp add: broadcastRoomList_def)

lemma clients_broadcastRoomList [simp]: "clients (broadcastRoomList s) = clients s"
  by (simp add: broadcastRoomList_def)

lemma cpm_broadcastRoomList [simp]: "clientPlayerMap (broadcastRoomList s) = clientPlayerMap s"
  by (simp add: broadcastRoomList_def)

lemma dblog_broadcastRoomList [simp]: "dblog (broadcastRoomList s) = dblog s"
  by (simp add: broadcastRoomList_def)

lemma rooms_dbDo [simp]: "rooms (dbDo d c s) = rooms s"
  by (simp add: dbDo_def)

lemma clients_dbDo [simp]: "clients (dbDo d c s) = clients s"
  by (simp add: dbDo_def)

lemma cpm_dbDo [simp]: "clientPlayerMap (dbDo d c s) = clientPlayerMap s"
  by (simp add: dbDo_def)

lemma outbox_dbDo [simp]: "outbox (dbDo d c s) = outbox s"
  by (simp add: dbDo_def)

lemma clients_removePlayer [simp]: "clients (removePlayer r i s) = clients s"
  by (simp add: removePlayer_def)

lemma cpm_removePlayer [simp]: "clientPlayerMap (removePlayer r i s) = clientPlayerMap s"
  by (simp add: removePlayer_def)

lemma outbox_removePlayer [simp]: "outbox (removePlayer r i s) = outbox s"
  by (simp add: removePlayer_def)

lemma dblog_removePlayer [simp]: "dblog (removePlayer r i s) = dblog s"
  by (simp add: removePlayer_def)

lemma clients_updatePlayer [simp]: "clients (updatePlayer r i f s) = clients s"
  by (simp add: updatePlayer_def)

lemma cpm_updatePlayer [simp]: "clientPlayerMap (updatePlayer r i f s) = clientPlayerMap s"
  by (simp add: updatePlayer_def)

lemma outbox_updatePlayer [simp]: "outbox (updatePlayer r i f s) = outbox s"
  by (simp add: updatePlayer_def)

lemma dblog_updatePlayer [simp]: "dblog (updatePlayer r i f s) = dblog s"
  by (simp add: updatePlayer_def)

lemma clients_setRoomStatus [simp]: "clients (setRoomStatus r st s) = clients s"
  by (simp add: setRoomStatus_def)

lemma cpm_setRoomStatus [simp]: "clientPlayerMap (setRoomStatus r st s) = clientPlayerMap s"
  by (simp add: setRoomStatus_def)

lemma outbox_setRoomStatus [simp]: "outbox (setRoomStatus r st s) = outbox s"
  by (simp add: setRoomStatus_def)

lemma dblog_setRoomStatus [simp]: "dblog (setRoomStatus r st s) = dblog s"
  by (simp add: setRoomStatus_def)

lemma outbox_sendToClient:
  "outbox (sendToClient s c m) =
     outbox s @ (if map_of (clients s) c = Some OPEN then [([c], m)] else [])"
  by (simp add: sendToClient_def)

lemma outbox_broadcastToAll:
  "outbox (broadcastToAll s m e) =
     outbox s @ (if clients s = [] then []
                 else [(openClients (clients s) e (map fst (clients s)), m)])"
  by (simp add: broadcastToAll_def)

lemma outbox_broadcastToRoom:
  "outbox (broadcastToRoom s r m e) =
     outbox s @ (case map_of (rooms s) r of
                   None \<Rightarrow> []
                 | Some room \<Rightarrow>
                     if players room = [] then []
                     else [(openClients (clients s) e (map fst (players room)), m)])"
  by (simp add: broadcastToRoom_def split: option.splits)

lemma outbox_broadcastRoomList:
  "outbox (broadcastRoomList s) =
     outbox s @ (if clients s = [] then []
                 else [(openClients (clients s) None (map fst (clients s)),
                        roomListUpdated (getPublicRoomList (rooms s)))])"
  by (simp add: broadcastRoomList_def outbox_broadcastToAll)

lemma dblog_dbDo:
  "dblog (dbDo d c s) = dblog s @ (if fails d c = None then [c] else [])"
  by (simp add: dbDo_def)

lemma rooms_removePlayer:
  "rooms (removePlayer r i s) =
     AList.map_entry r (\<lambda>room. room\<lparr>players := AList.delete i (players room)\<rparr>) (rooms s)"
  by (simp add: removePlayer_def)

lemma rooms_updatePlayer:
  "rooms (updatePlayer r i f s) =
     AList.map_entry r (\<lambda>room. room\<lparr>players := AList.map_entry i f (players room)\<rparr>) (rooms s)"
  by (simp add: updatePlayer_def)

lemma rooms_setRoomStatus:
  "rooms (setRoomStatus r st s) = AList.map_entry r (\<lambda>room. room\<lparr>roomStatus := st\<rparr>) (rooms s)"
  by (simp add: setRoomStatus_def)

lemmas outbox_simps = outbox_sendToClient outbox_broadcastToAll outbox_broadcastToRoom
  outbox_broadcastRoomList sendError_def

lemmas rooms_simps = rooms_removePlayer rooms_updatePlayer rooms_setRoomStatus

subsection \<open>Association lists\<close>

lemma map_of_insertIndex:
  "map_of kvs k = None \<Longrightarrow>
   map_of (insertIndex n k v kvs) x = (if x = k then Some v else map_of kvs x)"
  by (induction kvs) (auto split: option.splits if_splits)

lemma map_of_assignKey: "map_of (assignKey k v kvs) = (map_of kvs)(k \<mapsto> v)"
proof
  fix x
  show "map_of (assignKey k v kvs) x = ((map_of kvs)(k \<mapsto> v)) x"
    by (cases "arrayIndex k"; cases "map_of kvs k")
       (auto simp: assignKey_def update_conv' map_of_insertIndex map_add_def split: option.splits)
qed


lemma map_entry_absent: "map_of xs k = None \<Longrightarrow> AList.map_entry k f xs = xs"
  by (induct xs) auto

lemma map_entry_twice:
  "AList.map_entry k f (AList.map_entry k g xs) = AList.map_entry k (\<lambda>v. f (g v)) xs"
  by (induct xs) auto

lemma delete_map_entry: "AList.delete k (AList.map_entry k f xs) = AList.delete k xs"
  by (induct xs) auto

lemma nonempty_of_lookup: "map_of ps k = Some p \<Longrightarrow> ps \<noteq> [] \<and> 1 \<le> length ps"
  by (cases ps) auto

lemma clients_handleDisconnect:
  "map_of (clients (handleDisconnect d s sid)) sid = None"
  by (simp add: handleDisconnect_def Let_def delete_conv' split: option.splits prod.splits)

lemmas ex_defs = ex_car_def ex_alice_def ex_bob_def ex_store_def ex_store_down_def ex_connected_def
  ex_room_def ex_lobby_def ex_race_def ex_solo_def ex_store_flaky_def ex_loading_def ex_second_round_def ex_first_round_def

section \<open>Disconnect cleanup\<close>

text \<open>
  C5. Disconnect cleanup is idempotent. When handleDisconnect runs for an identifier
  that is not in the connection registry, the whole state (registry, player map, room
  directory, everything transmitted, everything written durably) is returned as it
  was; and running handleDisconnect twice for one identifier gives the state that
  running it once gives, whatever the durable store answers either time.
\<close>

theorem C5_disconnect_idempotent:
  "(map_of (clients s) sid = None \<longrightarrow> handleDisconnect d s sid = s) \<and>
   handleDisconnect d' (handleDisconnect d s sid) sid = handleDisconnect d s sid"
proof
  show "map_of (clients s) sid = None \<longrightarrow> handleDisconnect d s sid = s"
    by (simp add: handleDisconnect_def)
next
  have "map_of (clients (handleDisconnect d s sid)) sid = None"
    by (rule clients_handleDisconnect)
  then show "handleDisconnect d' (handleDisconnect d s sid) sid
      = handleDisconnect d s sid"
    by (simp add: handleDisconnect_def [of d' "handleDisconnect d s sid"])
qed

theorem C5_disconnect_idempotent_witness:
  "map_of (clients ex_lobby) ''c9'' = None \<and> handleDisconnect ex_store ex_lobby ''c9'' = ex_lobby \<and>
   handleDisconnect ex_store_down (handleDisconnect ex_store ex_lobby ''c1'') ''c1''
     = handleDisconnect ex_store ex_lobby ''c1''"
  using C5_disconnect_idempotent [of ex_lobby "''c9''" ex_store ex_store]
    C5_disconnect_idempotent [of ex_lobby "''c1''" ex_store ex_store_down]
  by (simp add: ex_lobby_def)

section \<open>Starting a game\<close>

lemma startGame_rejected:
  assumes "map_of (rooms s) (sg_roomID dto) = Some room"
      and "\<not> ((\<exists>p. map_of (players room) sid = Some p \<and> isHost p) \<and> roomStatus room = WAITING
             \<and> 1 \<le> length (players room) \<and> allReady room)"
  shows "\<exists>msg rest. startGame d s sid (Fields dto) =
           s\<lparr>outbox := outbox s @ (if map_of (clients s) sid = Some OPEN
                                  then ([sid], error msg None) # rest else [])\<rparr>"
proof -
  let ?s' = "startGame d s sid (Fields dto)"
  have nh: "(case map_of (players room) sid of None \<Rightarrow> True | Some p \<Rightarrow> \<not> isHost p)
      \<or> roomStatus room \<noteq> WAITING \<or> length (players room) < MIN_PLAYERS \<or> \<not> allReady room"
    using assms(2) by (auto simp: MIN_PLAYERS_def Suc_le_eq split: option.splits)
  then consider
      (a) "(case map_of (players room) sid of None \<Rightarrow> True | Some p \<Rightarrow> \<not> isHost p)"
    | (b) "\<not> (case map_of (players room) sid of None \<Rightarrow> True | Some p \<Rightarrow> \<not> isHost p)" "roomStatus room \<noteq> WAITING"
    | (c) "\<not> (case map_of (players room) sid of None \<Rightarrow> True | Some p \<Rightarrow> \<not> isHost p)" "roomStatus room = WAITING"
          "length (players room) < MIN_PLAYERS"
    | (e) "\<not> (case map_of (players room) sid of None \<Rightarrow> True | Some p \<Rightarrow> \<not> isHost p)" "roomStatus room = WAITING"
          "\<not> length (players room) < MIN_PLAYERS" "\<not> allReady room"
    by blast
  then show ?thesis
  proof cases
    case a
    then have "?s' = sendError d s sid ''Only the host can start the game.'' None"
      using assms(1) by (simp add: startGame_def)
    then show ?thesis by (simp add: sendError_def sendToClient_eq) blast
  next
    case b
    then have "?s' = sendError d s sid ''Game cannot be started (not in WAITING state).'' None"
      using assms(1) by (simp add: startGame_def)
    then show ?thesis by (simp add: sendError_def sendToClient_eq) blast
  next
    case c
    then have "?s' = sendError d s sid ''Need at least 1 player(s) to start.'' None"
      using assms(1) by (simp add: startGame_def)
    then show ?thesis by (simp add: sendError_def sendToClient_eq) blast
  next
    case e
    then have "?s' = sendToClient (sendError d s sid ''Not all players are ready.'' None) sid
                      (playersNotReady
                         (map playerName (filter (\<lambda>p. status p \<noteq> Ready) (map snd (players room)))))"
      using assms(1) by (simp add: startGame_def)
    then show ?thesis by (simp add: sendError_def sendToClient_eq) blast
  qed
qed

lemma startGame_started:
  assumes "map_of (rooms s) (sg_roomID dto) = Some room"
      and "map_of (players room) sid = Some p" "isHost p" "roomStatus room = WAITING" "allReady room"
      and "fails d (RoomService_updateRoomStatus (sg_roomID dto) RUNNING) = None"
  shows "rooms (startGame d s sid (Fields dto)) =
           AList.map_entry (sg_roomID dto)
             (\<lambda>r. r\<lparr>roomStatus := RUNNING, players := map (apsnd resetGameState) (players r)\<rparr>) (rooms s)"
  using assms nonempty_of_lookup[OF assms(2)]
  by (simp add: startGame_def Let_def MIN_PLAYERS_def setRoomStatus_def map_entry_twice)




text \<open>
  C1, as the code has it. For a room of the directory and a startGame message that
  names it: provided the durable store accepts the status update, the room goes from
  another status to Running exactly when the sender holds the host session of the room,
  the room was Waiting, it has at least one session and every session is Ready; then
  the room is the old one with status Running and every session reset (position and
  rotation at the origin, speed and distance zero, load flag false), and no other room
  changes. When a guard fails nothing but the outbox changes, and what is appended for
  a sender whose connection is open starts with an error sent to that sender.
  When the guards hold and the store rejects the update, the room ends in Waiting
  (see C8), which is why the store's answer is part of the statement.
\<close>

theorem C1_startGame_transition:
  assumes "map_of (rooms s) (sg_roomID dto) = Some room"
  shows
    "(fails d (RoomService_updateRoomStatus (sg_roomID dto) RUNNING) = None \<longrightarrow>
        ((roomStatus room \<noteq> RUNNING \<and> running (startGame d s sid (Fields dto)) (sg_roomID dto)) \<longleftrightarrow>
         ((\<exists>p. map_of (players room) sid = Some p \<and> isHost p) \<and> roomStatus room = WAITING
            \<and> 1 \<le> length (players room) \<and> allReady room))) \<and>
     (((\<exists>p. map_of (players room) sid = Some p \<and> isHost p) \<and> roomStatus room = WAITING
        \<and> 1 \<le> length (players room) \<and> allReady room)
        \<and> fails d (RoomService_updateRoomStatus (sg_roomID dto) RUNNING) = None \<longrightarrow>
        rooms (startGame d s sid (Fields dto)) =
          AList.map_entry (sg_roomID dto)
            (\<lambda>r. r\<lparr>roomStatus := RUNNING, players := map (apsnd resetGameState) (players r)\<rparr>) (rooms s)
        \<and> (\<forall>p \<in> set (roomPlayers (startGame d s sid (Fields dto)) (sg_roomID dto)).
              position p = origin \<and> rotation p = origin \<and> speed p = 0 \<and> distance p = 0
              \<and> \<not> isLoaded p)) \<and>
     (\<not> ((\<exists>p. map_of (players room) sid = Some p \<and> isHost p) \<and> roomStatus room = WAITING
          \<and> 1 \<le> length (players room) \<and> allReady room) \<longrightarrow>
        (\<exists>msg rest. startGame d s sid (Fields dto) =
           s\<lparr>outbox := outbox s @ (if map_of (clients s) sid = Some OPEN
                                  then ([sid], error msg None) # rest else [])\<rparr>))"
    (is "(?ok \<longrightarrow> (?trans \<longleftrightarrow> ?G)) \<and> (?G \<and> ?ok \<longrightarrow> ?started \<and> ?reset) \<and> (\<not> ?G \<longrightarrow> ?rejected)")
proof (intro conjI impI)
  assume ng: "\<not> ?G"
  show ?rejected by (rule startGame_rejected[OF assms ng])
next
  assume "?G \<and> ?ok"
  then obtain p where p: "map_of (players room) sid = Some p" "isHost p"
    and g: "roomStatus room = WAITING" "allReady room" and ok: ?ok by blast
  show st: ?started by (rule startGame_started[OF assms p g ok])
  show ?reset
    using assms by (auto simp: roomPlayers_def st map_of_map_entry resetGameState_def)
next
  assume ok: ?ok
  show "?trans \<longleftrightarrow> ?G"
  proof
    assume t: ?trans
    show ?G
    proof (rule ccontr)
      assume "\<not> ?G"
      from startGame_rejected[OF assms this, of d] obtain msg rest where
        "startGame d s sid (Fields dto) =
           s\<lparr>outbox := outbox s @ (if map_of (clients s) sid = Some OPEN
                                  then ([sid], error msg None) # rest else [])\<rparr>" by blast
      then have "rooms (startGame d s sid (Fields dto)) = rooms s" by simp
      with t assms show False by (simp add: running_def)
    qed
  next
    assume G: ?G
    then obtain p where p: "map_of (players room) sid = Some p" "isHost p"
      and g: "roomStatus room = WAITING" "allReady room" by blast
    show ?trans
      using assms g by (simp add: running_def startGame_started[OF assms p g ok] map_of_map_entry)
  qed
qed

theorem C1_startGame_transition_witness:
  "map_of (rooms ex_lobby) ''1'' = Some ex_room \<and>
   running (startGame ex_store ex_lobby ''c1'' (Fields \<lparr>sg_roomID = ''1'', sg_map = 3\<rparr>)) ''1'' \<and>
   rooms (startGame ex_store ex_lobby ''c2'' (Fields \<lparr>sg_roomID = ''1'', sg_map = 3\<rparr>)) = rooms ex_lobby"
proof -
  have r: "map_of (rooms ex_lobby) (sg_roomID \<lparr>sg_roomID = ''1'', sg_map = 3\<rparr>) = Some ex_room"
    by (simp add: ex_lobby_def)
  have g1: "(\<exists>p. map_of (players ex_room) ''c1'' = Some p \<and> isHost p) \<and> roomStatus ex_room = WAITING
     \<and> 1 \<le> length (players ex_room) \<and> allReady ex_room"
    by (simp add: ex_room_def newPlayerData_def allReady_def)
  have g2: "\<not> ((\<exists>p. map_of (players ex_room) ''c2'' = Some p \<and> isHost p) \<and> roomStatus ex_room = WAITING
     \<and> 1 \<le> length (players ex_room) \<and> allReady ex_room)"
    by (simp add: ex_room_def newPlayerData_def allReady_def)
  have ok: "fails ex_store (RoomService_updateRoomStatus ''1'' RUNNING) = None"
    by (simp add: ex_store_def)
  from C1_startGame_transition[OF r, of ex_store "''c1''"] g1 ok
  have a: "running (startGame ex_store ex_lobby ''c1'' (Fields \<lparr>sg_roomID = ''1'', sg_map = 3\<rparr>)) ''1''"
    by simp
  from C1_startGame_transition[OF r, of ex_store "''c2''"] g2
  obtain msg rest where "startGame ex_store ex_lobby ''c2'' (Fields \<lparr>sg_roomID = ''1'', sg_map = 3\<rparr>) =
      ex_lobby\<lparr>outbox := outbox ex_lobby @ (if map_of (clients ex_lobby) ''c2'' = Some OPEN
                                  then ([''c2''], error msg None) # rest else [])\<rparr>"
    by blast
  then have b: "rooms (startGame ex_store ex_lobby ''c2'' (Fields \<lparr>sg_roomID = ''1'', sg_map = 3\<rparr>)) = rooms ex_lobby"
    by simp
  from r a b show ?thesis by simp
qed

text \<open>
  The statement without the proviso fails: all four guards hold, the store is down, and
  the room is not Running after the message.
\<close>

theorem C1_startGame_transition_counterexample:
  "map_of (rooms ex_lobby) ''1'' = Some ex_room \<and>
   map_of (players ex_room) ''c1'' = Some (newPlayerData ex_alice ''c1'' True Ready) \<and>
   isHost (newPlayerData ex_alice ''c1'' True Ready) \<and>
   roomStatus ex_room = WAITING \<and> 1 \<le> length (players ex_room) \<and> allReady ex_room \<and>
   \<not> running (startGame ex_store_down ex_lobby ''c1'' (Fields \<lparr>sg_roomID = ''1'', sg_map = 3\<rparr>)) ''1''"
  by (simp add: startGame_def startGame_failed_def Let_def ex_defs newPlayerData_def allReady_def
      MIN_PLAYERS_def setRoomStatus_def sendError_def sendToClient_def running_def)

section \<open>Joining a room\<close>

text \<open>
  C6, as the code has it. For every room in status Waiting that has a non-empty
  password, a joinRoom message whose password differs from the room's (or has none) is
  answered by sendError with exactly "Incorrect password.": registry, player map,
  directory and store log are unchanged, and a sender whose connection is open receives
  that error and nothing else.
\<close>

theorem C6_wrong_password:
  assumes "map_of (rooms s) (jr_roomID dto) = Some room"
      and "roomStatus room = WAITING"
      and "password room = Some pw" and "pw \<noteq> []"
      and "jr_password dto \<noteq> Some pw"
  shows "joinRoom d s sid (Fields dto) = sendError d s sid ''Incorrect password.'' None \<and>
         joinRoom d s sid (Fields dto) =
           s\<lparr>outbox := outbox s @ (if map_of (clients s) sid = Some OPEN
                                  then [([sid], error ''Incorrect password.'' None)] else [])\<rparr>"
proof -
  have t: "truthy (password room) \<noteq> None"
    using assms(3,4) by (cases pw) (simp_all add: truthy_def)
  have ne: "password room \<noteq> jr_password dto"
    using assms(3,5) by auto
  have "joinRoom d s sid (Fields dto) = sendError d s sid ''Incorrect password.'' None"
    using assms(1,2) t ne by (simp add: joinRoom_def)
  then show ?thesis by (simp add: sendError_def sendToClient_eq)
qed

theorem C6_wrong_password_witness:
  "map_of (rooms ex_lobby) ''1'' = Some ex_room \<and>
   joinRoom ex_store ex_lobby ''c2'' (Fields \<lparr>jr_roomID = ''1'', jr_playerId = ''p2'', jr_password = Some ''guess''\<rparr>)
     = ex_lobby\<lparr>outbox := [([''c2''], error ''Incorrect password.'' None)]\<rparr>"
  using C6_wrong_password [of ex_lobby "\<lparr>jr_roomID = ''1'', jr_playerId = ''p2'', jr_password = Some ''guess''\<rparr>"
      ex_room "''secret''" ex_store "''c2''"]
  by (simp add: ex_lobby_def ex_room_def sendError_def sendToClient_def)

text \<open>
  The statement for every room fails: a Running room with a password answers a wrong
  password with the error for its status.
\<close>

theorem C6_wrong_password_counterexample:
  "map_of (rooms ex_race) ''1'' = Some (ex_room\<lparr>roomStatus := RUNNING\<rparr>) \<and>
   password (ex_room\<lparr>roomStatus := RUNNING\<rparr>) = Some ''secret'' \<and>
   joinRoom ex_store ex_race ''c2'' (Fields \<lparr>jr_roomID = ''1'', jr_playerId = ''p2'', jr_password = Some ''guess''\<rparr>)
     = ex_race\<lparr>outbox := [([''c2''],
          error ''Room is not waiting for players (already running or finished).'' None)]\<rparr>"
  by (simp add: joinRoom_def sendError_def sendToClient_def ex_race_def ex_lobby_def ex_room_def)

section \<open>Changing the car\<close>

lemma playerChangeCar_rejected:
  assumes "map_of (rooms s) (cc_roomID dto) = Some room"
      and "map_of (players room) sid = Some p"
      and "(\<not> list_ex (\<lambda>carEntry. car_id carEntry = cc_mainCar dto) (ownerCars p)
             \<and> cc_mainCar dto \<noteq> mainCar p) \<or> roomStatus room \<noteq> WAITING"
  shows "\<exists>msg. playerChangeCar d s sid (Fields dto) = sendError d s sid msg None"
  using assms
  by (auto simp: playerChangeCar_def senderPlayer_def Let_def split: option.splits)

lemma playerChangeCar_changes:
  assumes "map_of (rooms s) (cc_roomID dto) = Some room"
      and "map_of (players room) sid = Some p"
      and "rooms (playerChangeCar d s sid (Fields dto)) \<noteq> rooms s"
  shows "roomStatus room = WAITING \<and>
         list_ex (\<lambda>carEntry. car_id carEntry = cc_mainCar dto) (ownerCars p) \<and>
         rooms (playerChangeCar d s sid (Fields dto)) =
           AList.map_entry (cc_roomID dto)
             (\<lambda>r. r\<lparr>players := AList.map_entry sid (\<lambda>q. q\<lparr>mainCar := cc_mainCar dto\<rparr>) (players r)\<rparr>)
             (rooms s)"
  using assms
  by (auto simp: playerChangeCar_def senderPlayer_def Let_def updatePlayer_def
           split: option.splits if_splits)

lemma playerChangeCar_redundant:
  assumes "map_of (rooms s) (cc_roomID dto) = Some room"
      and "map_of (players room) sid = Some p"
      and "roomStatus room = WAITING"
      and "p_id p = cc_playerID dto" and "map_of (clientPlayerMap s) sid = Some (cc_playerID dto)"
      and "cc_mainCar dto = mainCar p"
  shows "playerChangeCar d s sid (Fields dto) = s"
  using assms by (simp add: playerChangeCar_def senderPlayer_def)

text \<open>
  C7, as the code has it. For a playerChangeCar message naming a room in which the
  sender has a session: the directory changes only when the room is Waiting and the
  requested car is in the session's owned cars, and then the change is the new
  selection of that session; when the car is neither owned nor the one already
  selected, or the room is not Waiting, the handler does nothing but send an error to
  the sender; and for the session's own player in a Waiting room, a request for the car
  already selected changes nothing and sends nothing, whether that car is owned or not.
\<close>

theorem C7_playerChangeCar:
  assumes "map_of (rooms s) (cc_roomID dto) = Some room"
      and "map_of (players room) sid = Some p"
  shows
    "(rooms (playerChangeCar d s sid (Fields dto)) \<noteq> rooms s \<longrightarrow>
        roomStatus room = WAITING \<and>
        list_ex (\<lambda>carEntry. car_id carEntry = cc_mainCar dto) (ownerCars p) \<and>
        rooms (playerChangeCar d s sid (Fields dto)) =
           AList.map_entry (cc_roomID dto)
             (\<lambda>r. r\<lparr>players := AList.map_entry sid (\<lambda>q. q\<lparr>mainCar := cc_mainCar dto\<rparr>) (players r)\<rparr>)
             (rooms s)) \<and>
     ((\<not> list_ex (\<lambda>carEntry. car_id carEntry = cc_mainCar dto) (ownerCars p)
         \<and> cc_mainCar dto \<noteq> mainCar p) \<or> roomStatus room \<noteq> WAITING \<longrightarrow>
        (\<exists>msg. playerChangeCar d s sid (Fields dto) =
           s\<lparr>outbox := outbox s @ (if map_of (clients s) sid = Some OPEN
                                  then [([sid], error msg None)] else [])\<rparr>)) \<and>
     (roomStatus room = WAITING \<and> p_id p = cc_playerID dto
        \<and> map_of (clientPlayerMap s) sid = Some (cc_playerID dto) \<and> cc_mainCar dto = mainCar p \<longrightarrow>
        playerChangeCar d s sid (Fields dto) = s)"
proof (intro conjI impI)
  assume "rooms (playerChangeCar d s sid (Fields dto)) \<noteq> rooms s"
  from playerChangeCar_changes[OF assms this]
  show "roomStatus room = WAITING"
    and "list_ex (\<lambda>carEntry. car_id carEntry = cc_mainCar dto) (ownerCars p)"
    and "rooms (playerChangeCar d s sid (Fields dto)) =
           AList.map_entry (cc_roomID dto)
             (\<lambda>r. r\<lparr>players := AList.map_entry sid (\<lambda>q. q\<lparr>mainCar := cc_mainCar dto\<rparr>) (players r)\<rparr>)
             (rooms s)"
    by simp_all
next
  assume "(\<not> list_ex (\<lambda>carEntry. car_id carEntry = cc_mainCar dto) (ownerCars p)
         \<and> cc_mainCar dto \<noteq> mainCar p) \<or> roomStatus room \<noteq> WAITING"
  from playerChangeCar_rejected[OF assms this, of d] obtain msg where
    "playerChangeCar d s sid (Fields dto) = sendError d s sid msg None" by blast
  then show "\<exists>msg. playerChangeCar d s sid (Fields dto) =
           s\<lparr>outbox := outbox s @ (if map_of (clients s) sid = Some OPEN
                                  then [([sid], error msg None)] else [])\<rparr>"
    by (auto simp: sendError_def sendToClient_eq)
next
  assume "roomStatus room = WAITING \<and> p_id p = cc_playerID dto
        \<and> map_of (clientPlayerMap s) sid = Some (cc_playerID dto) \<and> cc_mainCar dto = mainCar p"
  then show "playerChangeCar d s sid (Fields dto) = s"
    using playerChangeCar_redundant[OF assms] by blast
qed


theorem C7_playerChangeCar_witness:
  "map_of (rooms ex_lobby) ''1'' = Some ex_room \<and>
   map_of (players ex_room) ''c1'' = Some (newPlayerData ex_alice ''c1'' True Ready) \<and>
   playerChangeCar ex_store ex_lobby ''c1''
     (Fields \<lparr>cc_roomID = ''1'', cc_playerID = ''p1'', cc_mainCar = 1\<rparr>) = ex_lobby \<and>
   rooms (playerChangeCar ex_store ex_lobby ''c1''
     (Fields \<lparr>cc_roomID = ''1'', cc_playerID = ''p1'', cc_mainCar = 9\<rparr>)) = rooms ex_lobby"
proof -
  have r: "map_of (rooms ex_lobby) ''1'' = Some ex_room"
    by (simp add: ex_lobby_def)
  have p: "map_of (players ex_room) ''c1'' = Some (newPlayerData ex_alice ''c1'' True Ready)"
    by (simp add: ex_room_def)
  have a: "playerChangeCar ex_store ex_lobby ''c1''
     (Fields \<lparr>cc_roomID = ''1'', cc_playerID = ''p1'', cc_mainCar = 1\<rparr>) = ex_lobby"
    using C7_playerChangeCar [of ex_lobby "\<lparr>cc_roomID = ''1'', cc_playerID = ''p1'', cc_mainCar = 1\<rparr>"
        ex_room "''c1''" "newPlayerData ex_alice ''c1'' True Ready" ex_store] r p
    by (simp add: ex_room_def ex_lobby_def newPlayerData_def ex_alice_def)
  have "\<exists>msg. playerChangeCar ex_store ex_lobby ''c1''
     (Fields \<lparr>cc_roomID = ''1'', cc_playerID = ''p1'', cc_mainCar = 9\<rparr>) =
       ex_lobby\<lparr>outbox := outbox ex_lobby @ (if map_of (clients ex_lobby) ''c1'' = Some OPEN
                                  then [([''c1''], error msg None)] else [])\<rparr>"
    using C7_playerChangeCar [of ex_lobby "\<lparr>cc_roomID = ''1'', cc_playerID = ''p1'', cc_mainCar = 9\<rparr>"
        ex_room "''c1''" "newPlayerData ex_alice ''c1'' True Ready" ex_store] r p
    by (simp add: newPlayerData_def ex_alice_def ex_car_def)
  then have b: "rooms (playerChangeCar ex_store ex_lobby ''c1''
     (Fields \<lparr>cc_roomID = ''1'', cc_playerID = ''p1'', cc_mainCar = 9\<rparr>)) = rooms ex_lobby"
    by auto
  from r p a b show ?thesis by simp
qed

text \<open>
  The statement as written fails at two inputs. Bob's selected car 7 is not among his
  owned cars; his request for car 7 in the Waiting room is not rejected: nothing is
  sent. Alice's request for the car she has already selected, in the Running room, is
  not silent: it is answered with an error.
\<close>

theorem C7_playerChangeCar_counterexample:
  "map_of (players ex_room) ''c2'' = Some (newPlayerData ex_bob ''c2'' False Ready) \<and>
   mainCar (newPlayerData ex_bob ''c2'' False Ready) = 7 \<and>
   ownerCars (newPlayerData ex_bob ''c2'' False Ready) = [] \<and>
   playerChangeCar ex_store ex_lobby ''c2''
     (Fields \<lparr>cc_roomID = ''1'', cc_playerID = ''p2'', cc_mainCar = 7\<rparr>) = ex_lobby \<and>
   mainCar (newPlayerData ex_alice ''c1'' True Ready) = 1 \<and>
   playerChangeCar ex_store ex_race ''c1''
     (Fields \<lparr>cc_roomID = ''1'', cc_playerID = ''p1'', cc_mainCar = 1\<rparr>)
     = ex_race\<lparr>outbox := [([''c1''], error ''Cannot change car now.'' None)]\<rparr>"
  by (simp add: playerChangeCar_def senderPlayer_def sendError_def sendToClient_def Let_def
       ex_race_def ex_lobby_def ex_room_def newPlayerData_def ex_bob_def ex_alice_def)

section \<open>Car position messages\<close>

lemma syncCarPosition_frame:
  "syncCarPosition s sid BadFields = Inr s \<and>
   syncCarPosition s sid (Fields dto) =
     Inr (case ps_roomID dto of
            NoRoomID \<Rightarrow> s
          | RoomKey roomID \<Rightarrow>
              (case map_of (rooms s) roomID of
                 None \<Rightarrow> s
               | Some room \<Rightarrow>
                   if roomStatus room = RUNNING \<and> map_of (players room) sid \<noteq> None
                   then s\<lparr>outbox := outbox s @
                           [(openClients (clients s) (Some sid) (map fst (players room)),
                             carPositionUpdate sid (ps_position dto) (ps_rotation dto) (ps_speed dto))]\<rparr>
                   else s))"
  by (auto simp: syncCarPosition_def Let_def broadcastToRoom_def split: option.splits RoomRef.splits
           dest: nonempty_of_lookup)

lemma syncCarPosition_no_data:
  "onMessage d s sid (Envelope (E_syncCarPosition NoData)) = sendError d s sid ''Invalid message format'' None"
  by (simp add: onMessage_def syncCarPosition_def)

text \<open>
  C9 at the input that breaks it. A syncCarPosition envelope without a data object
  names no room, so no guard passes; the handler throws while destructuring, the
  message listener catches that, and the sender is sent the error "Invalid message
  format" instead of silence. (With a data object the claim holds: lemma
  \<open>syncCarPosition_frame\<close>.)
\<close>

theorem C9_syncCarPosition_no_data_replies:
  "onMessage ex_store ex_race ''c1'' (Envelope (E_syncCarPosition NoData)) =
     ex_race\<lparr>outbox := [([''c1''], error ''Invalid message format'' None)]\<rparr>"
  by (simp add: onMessage_def syncCarPosition_def sendError_def sendToClient_def ex_race_def ex_lobby_def)

section \<open>Sessions per connection\<close>

text \<open>
  C3 at the input that breaks it. createRoom and joinRoom look for the player id of the
  message in the rooms, not for the connection; one connection that creates a room for
  player p1 and then one for player p2 has a player object in both rooms.
\<close>

theorem C3_connection_in_two_rooms:
  "roomsOf (run ex_connected
      [(ex_store, on_message ''c1'' (Envelope (E_createRoom
          (Fields \<lparr>cr_value = Some 100, cr_password = None, cr_playerId = ''p1''\<rparr>)))),
       (ex_store\<lparr>nextId := ''2''\<rparr>, on_message ''c1'' (Envelope (E_createRoom
          (Fields \<lparr>cr_value = Some 100, cr_password = None, cr_playerId = ''p2''\<rparr>))))])
     ''c1'' = [''1'', ''2'']"
  by (simp add: run_def onMessage_def createRoom_def createRoom_store_def Let_def truthy_def
       assignKey_def arrayIndex_def digitValue_def
       existingRoomId_def dbDo_def sendToClient_def broadcastRoomList_def broadcastToAll_def
       newPlayerData_def roomsOf_def ex_connected_def ex_store_def ex_alice_def ex_bob_def)

text \<open>
  What follows from it: when that connection closes, handleDisconnect stops at the first
  room it finds, and the second room keeps a player object for a connection that no
  longer exists.
\<close>

lemma orphan_after_disconnect:
  "roomsOf (run ex_connected
      [(ex_store, on_message ''c1'' (Envelope (E_createRoom
          (Fields \<lparr>cr_value = Some 100, cr_password = None, cr_playerId = ''p1''\<rparr>)))),
       (ex_store\<lparr>nextId := ''2''\<rparr>, on_message ''c1'' (Envelope (E_createRoom
          (Fields \<lparr>cr_value = Some 100, cr_password = None, cr_playerId = ''p2''\<rparr>)))),
       (ex_store, on_close ''c1'')])
     ''c1'' = [''2'']"
  by (simp add: run_def onMessage_def createRoom_def createRoom_store_def Let_def truthy_def
       assignKey_def arrayIndex_def digitValue_def
       existingRoomId_def dbDo_def sendToClient_def broadcastRoomList_def broadcastToAll_def
       broadcastToRoom_def removePlayer_def handleDisconnect_def
       newPlayerData_def roomsOf_def ex_connected_def ex_store_def ex_alice_def ex_bob_def)

section \<open>Initial readiness\<close>

lemma createRoom_creates:
  assumes "playerModel d (cr_playerId cdto) = Some p"
      and "\<forall>c. fails d c = None"
      and "truthy (existingRoomId (rooms s) (cr_playerId cdto)) = None"
  shows "rooms (createRoom d s sid (Fields cdto)) =
     assignKey (nextId d)
       \<lparr>roomId = nextId d, roomValue = Some (case cr_value cdto of None \<Rightarrow> 0 | Some n \<Rightarrow> n),
        password = Some (case cr_password cdto of None \<Rightarrow> [] | Some w \<Rightarrow> w),
        roomStatus = WAITING, players = [(sid, newPlayerData p sid True Ready)]\<rparr> (rooms s)"
  using assms by (simp add: createRoom_def createRoom_store_def Let_def)

lemma joinRoom_joins:
  assumes "map_of (rooms s) (jr_roomID jdto) = Some jroom"
      and "roomStatus jroom = WAITING"
      and "truthy (password jroom) = None \<or> password jroom = jr_password jdto"
      and "playerModel d (jr_playerId jdto) = Some q"
      and "\<forall>c. fails d c = None"
      and "length (players jroom) < MAX_PLAYERS"
      and "truthy (existingRoomId (rooms s) (jr_playerId jdto)) = None"
  shows "rooms (joinRoom d s sid (Fields jdto)) =
     AList.map_entry (jr_roomID jdto)
       (\<lambda>room. room\<lparr>players := AList.update sid (newPlayerData q sid False Waiting) (players room)\<rparr>)
       (rooms s)"
  using assms
  by (auto simp: joinRoom_def joinRoom_store_def Let_def map_of_map_entry)

text \<open>
  C10. When createRoom creates a room (the player exists, holds no session yet, the
  store answers), the room has one session, the sender's, it is the host and its
  readiness is Ready; so the room passes the all-Ready test of startGame, and a
  startGame from that connection, with no playerReady in between, puts the room in
  Running when the store accepts the status. When joinRoom adds a session (room
  Waiting, password accepted, room not full, player known and without a session), the
  new session's readiness is Waiting and it is not host.
\<close>

theorem C10_initial_readiness:
  "(playerModel d (cr_playerId cdto) = Some p \<and> (\<forall>c. fails d c = None)
      \<and> truthy (existingRoomId (rooms s) (cr_playerId cdto)) = None \<longrightarrow>
      (\<exists>room. map_of (rooms (createRoom d s sid (Fields cdto))) (nextId d) = Some room
         \<and> players room = [(sid, newPlayerData p sid True Ready)]
         \<and> status (newPlayerData p sid True Ready) = Ready
         \<and> isHost (newPlayerData p sid True Ready)
         \<and> allReady room
         \<and> (fails d' (RoomService_updateRoomStatus (nextId d) RUNNING) = None \<longrightarrow>
              running (startGame d' (createRoom d s sid (Fields cdto)) sid
                         (Fields \<lparr>sg_roomID = nextId d, sg_map = m\<rparr>)) (nextId d)))) \<and>
   (map_of (rooms s) (jr_roomID jdto) = Some jroom \<and> roomStatus jroom = WAITING
      \<and> (truthy (password jroom) = None \<or> password jroom = jr_password jdto)
      \<and> playerModel d (jr_playerId jdto) = Some q \<and> (\<forall>c. fails d c = None)
      \<and> length (players jroom) < MAX_PLAYERS
      \<and> truthy (existingRoomId (rooms s) (jr_playerId jdto)) = None \<longrightarrow>
      (\<exists>room'. map_of (rooms (joinRoom d s sid' (Fields jdto))) (jr_roomID jdto) = Some room'
         \<and> map_of (players room') sid' = Some (newPlayerData q sid' False Waiting)
         \<and> status (newPlayerData q sid' False Waiting) = Waiting
         \<and> \<not> isHost (newPlayerData q sid' False Waiting)))"
proof (intro conjI impI)
  assume h: "playerModel d (cr_playerId cdto) = Some p \<and> (\<forall>c. fails d c = None)
      \<and> truthy (existingRoomId (rooms s) (cr_playerId cdto)) = None"
  let ?s1 = "createRoom d s sid (Fields cdto)"
  let ?room = "\<lparr>roomId = nextId d, roomValue = Some (case cr_value cdto of None \<Rightarrow> 0 | Some n \<Rightarrow> n),
        password = Some (case cr_password cdto of None \<Rightarrow> [] | Some w \<Rightarrow> w),
        roomStatus = WAITING, players = [(sid, newPlayerData p sid True Ready)]\<rparr>"
  have rs: "rooms ?s1 = assignKey (nextId d) ?room (rooms s)"
    using h by (intro createRoom_creates) auto
  have look: "map_of (rooms ?s1) (nextId d) = Some ?room"
    by (simp add: rs map_of_assignKey)
  have ar: "allReady ?room" by (simp add: allReady_def newPlayerData_def)
  have run: "running (startGame d' ?s1 sid (Fields \<lparr>sg_roomID = nextId d, sg_map = m\<rparr>)) (nextId d)"
    if ok: "fails d' (RoomService_updateRoomStatus (nextId d) RUNNING) = None"
  proof -
    have "rooms (startGame d' ?s1 sid (Fields \<lparr>sg_roomID = nextId d, sg_map = m\<rparr>)) =
           AList.map_entry (nextId d)
             (\<lambda>r. r\<lparr>roomStatus := RUNNING, players := map (apsnd resetGameState) (players r)\<rparr>) (rooms ?s1)"
      using look ar ok
      by (intro startGame_started[where room = ?room and p = "newPlayerData p sid True Ready",
            of ?s1 "\<lparr>sg_roomID = nextId d, sg_map = m\<rparr>" sid d', simplified])
         (simp_all add: newPlayerData_def)
    then show ?thesis using look by (simp add: running_def map_of_map_entry)
  qed
  show "\<exists>room. map_of (rooms ?s1) (nextId d) = Some room
         \<and> players room = [(sid, newPlayerData p sid True Ready)]
         \<and> status (newPlayerData p sid True Ready) = Ready
         \<and> isHost (newPlayerData p sid True Ready)
         \<and> allReady room
         \<and> (fails d' (RoomService_updateRoomStatus (nextId d) RUNNING) = None \<longrightarrow>
              running (startGame d' ?s1 sid (Fields \<lparr>sg_roomID = nextId d, sg_map = m\<rparr>)) (nextId d))"
    using look ar run by (intro exI[of _ ?room]) (simp add: newPlayerData_def)
next
  assume h: "map_of (rooms s) (jr_roomID jdto) = Some jroom \<and> roomStatus jroom = WAITING
      \<and> (truthy (password jroom) = None \<or> password jroom = jr_password jdto)
      \<and> playerModel d (jr_playerId jdto) = Some q \<and> (\<forall>c. fails d c = None)
      \<and> length (players jroom) < MAX_PLAYERS
      \<and> truthy (existingRoomId (rooms s) (jr_playerId jdto)) = None"
  have "rooms (joinRoom d s sid' (Fields jdto)) =
     AList.map_entry (jr_roomID jdto)
       (\<lambda>room. room\<lparr>players := AList.update sid' (newPlayerData q sid' False Waiting) (players room)\<rparr>)
       (rooms s)"
    using h by (intro joinRoom_joins[where jroom = jroom]) auto
  then show "\<exists>room'. map_of (rooms (joinRoom d s sid' (Fields jdto))) (jr_roomID jdto) = Some room'
         \<and> map_of (players room') sid' = Some (newPlayerData q sid' False Waiting)
         \<and> status (newPlayerData q sid' False Waiting) = Waiting
         \<and> \<not> isHost (newPlayerData q sid' False Waiting)"
    using h by (simp add: map_of_map_entry update_conv' newPlayerData_def)
qed

theorem C10_initial_readiness_witness:
  "playerModel ex_store ''p1'' = Some ex_alice \<and>
   running (startGame ex_store
              (createRoom ex_store ex_connected ''c1''
                 (Fields \<lparr>cr_value = Some 100, cr_password = None, cr_playerId = ''p1''\<rparr>))
              ''c1'' (Fields \<lparr>sg_roomID = ''1'', sg_map = 3\<rparr>)) ''1'' \<and>
   map_option (map_option status \<circ> (\<lambda>room. map_of (players room) ''c2''))
     (map_of (rooms (joinRoom ex_store ex_solo ''c2''
        (Fields \<lparr>jr_roomID = ''1'', jr_playerId = ''p2'', jr_password = None\<rparr>))) ''1'')
     = Some (Some Waiting)"
proof -
  have a: "running (startGame ex_store
              (createRoom ex_store ex_connected ''c1''
                 (Fields \<lparr>cr_value = Some 100, cr_password = None, cr_playerId = ''p1''\<rparr>))
              ''c1'' (Fields \<lparr>sg_roomID = ''1'', sg_map = 3\<rparr>)) ''1''"
    using C10_initial_readiness [where d = ex_store and d' = ex_store and s = ex_connected
        and cdto = "\<lparr>cr_value = Some 100, cr_password = None, cr_playerId = ''p1''\<rparr>"
        and p = ex_alice and sid = "''c1''" and m = 3]
    by (auto simp add: ex_store_def ex_connected_def existingRoomId_def truthy_def)
  have b: "\<exists>room'. map_of (rooms (joinRoom ex_store ex_solo ''c2''
        (Fields \<lparr>jr_roomID = ''1'', jr_playerId = ''p2'', jr_password = None\<rparr>))) ''1'' = Some room'
      \<and> map_of (players room') ''c2'' = Some (newPlayerData ex_bob ''c2'' False Waiting)"
    using C10_initial_readiness [where d = ex_store and s = ex_solo
        and jdto = "\<lparr>jr_roomID = ''1'', jr_playerId = ''p2'', jr_password = None\<rparr>"
        and jroom = "\<lparr>roomId = ''1'', roomValue = Some 100, password = Some [],
                               roomStatus = WAITING,
                               players = [(''c1'', newPlayerData ex_alice ''c1'' True Ready)]\<rparr>"
        and q = ex_bob and sid' = "''c2''"]
    by (simp add: ex_store_def ex_solo_def existingRoomId_def truthy_def MAX_PLAYERS_def
         newPlayerData_def ex_alice_def)
  have c: "playerModel ex_store ''p1'' = Some ex_alice" by (simp add: ex_store_def)
  from a b c show ?thesis by (auto simp: newPlayerData_def)
qed


section \<open>Failures of the durable store\<close>




lemma handleDisconnect_outbox:
  "outbox (handleDisconnect d s sid) = outbox (handleDisconnect d' s sid)"
  by (simp add: handleDisconnect_def Let_def outbox_simps rooms_simps split: option.splits prod.splits)









lemma joinRoom_failed_memory [simp]:
  "rooms (joinRoom_failed d s sid dto e) = rooms s \<and>
   clientPlayerMap (joinRoom_failed d s sid dto e) = clientPlayerMap s \<and>
   clients (joinRoom_failed d s sid dto e) = clients s"
  by (simp add: joinRoom_failed_def Let_def split: option.splits)






section \<open>The host leaves or disconnects\<close>

lemma pub_ids: "pub_id ` set (getPublicRoomList rs) \<subseteq> roomId ` snd ` set rs"
  by (force simp: getPublicRoomList_def)

lemma pub_ids_delete:
  assumes "\<forall>kr \<in> set rs. roomId (snd kr) = fst kr"
  shows "rid \<notin> pub_id ` set (getPublicRoomList (AList.delete rid rs))"
proof
  assume "rid \<in> pub_id ` set (getPublicRoomList (AList.delete rid rs))"
  then obtain kr where kr: "kr \<in> set (AList.delete rid rs)" "roomId (snd kr) = rid"
    using pub_ids[of "AList.delete rid rs"] by auto
  then have "kr \<in> set rs" "fst kr \<noteq> rid" by (auto simp: AList.delete_eq)
  with assms kr show False by auto
qed

lemma openClients_iff:
  "k \<in> set (openClients cs ex ids) \<longleftrightarrow> k \<in> set ids \<and> Some k \<noteq> ex \<and> map_of cs k = Some OPEN"
  by (auto simp: openClients_def)

lemma registered_nonempty: "map_of cs k = Some st \<Longrightarrow> cs \<noteq> []"
  by auto

lemma handleDisconnect_host:
  assumes "map_of (clients s) sid = Some st"
      and "findRoomOf (rooms s) sid = Some (rid, p)" and "isHost p" and "rid \<noteq> []"
      and "map_of (rooms s) rid = Some room"
  shows "rooms (handleDisconnect d s sid) = AList.delete rid (rooms s)"
    and "outbox (handleDisconnect d s sid) =
           outbox s
           @ (if AList.delete sid (players room) = [] then []
              else [(openClients (clients s) None (map fst (AList.delete sid (players room))),
                     roomClosed ''Host disconnected'')])
           @ [(openClients (clients s) None (map fst (clients s)),
               roomListUpdated (getPublicRoomList (AList.delete rid (rooms s))))]"
    and "dblog (handleDisconnect d s sid) =
           dblog s
           @ (if p_id p \<noteq> [] \<and> fails d (RoomService_leaveRoom rid (p_id p)) = None
              then [RoomService_leaveRoom rid (p_id p)] else [])
           @ (if fails d (RoomService_deleteRoom rid) = None then [RoomService_deleteRoom rid] else [])"
    and "clients (handleDisconnect d s sid) = AList.delete sid (clients s)"
    and "clientPlayerMap (handleDisconnect d s sid) = AList.delete sid (clientPlayerMap s)"
  using assms registered_nonempty[OF assms(1)]
  by (simp_all add: handleDisconnect_def Let_def rooms_simps map_of_map_entry delete_map_entry
        outbox_simps dblog_dbDo)

lemma leaveRoom_host:
  assumes "findRoomOf (rooms s) sid = Some (rid, p)" and "isHost p" and "rid \<noteq> []"
      and "map_of (rooms s) rid = Some room"
      and "truthy (map_of (clientPlayerMap s) sid) = Some pid"
      and "fails d (RoomService_leaveRoom rid pid) = None"
  shows "rooms (leaveRoom d s sid) = AList.delete rid (rooms s)"
    and "outbox (leaveRoom d s sid) =
           outbox s
           @ (if map_of (clients s) sid = Some OPEN then [([sid], leftRoom rid)] else [])
           @ (if AList.delete sid (players room) = [] then []
              else [(openClients (clients s) None (map fst (AList.delete sid (players room))),
                     roomClosed ''Host left'')])
           @ (if fails d (RoomService_deleteRoom rid) = None \<and> clients s \<noteq> []
              then [(openClients (clients s) None (map fst (clients s)),
                     roomListUpdated (getPublicRoomList (AList.delete rid (rooms s))))]
              else [])"
    and "dblog (leaveRoom d s sid) =
           dblog s @ [RoomService_leaveRoom rid pid]
           @ (if fails d (RoomService_deleteRoom rid) = None then [RoomService_deleteRoom rid] else [])"
    and "clients (leaveRoom d s sid) = clients s"
    and "clientPlayerMap (leaveRoom d s sid) = AList.delete sid (clientPlayerMap s)"
proof -
  show "rooms (leaveRoom d s sid) = AList.delete rid (rooms s)"
    using assms
    by (cases "fails d (RoomService_deleteRoom rid)")
       (simp_all add: leaveRoom_def Let_def rooms_simps map_of_map_entry delete_map_entry)
  show "outbox (leaveRoom d s sid) =
           outbox s
           @ (if map_of (clients s) sid = Some OPEN then [([sid], leftRoom rid)] else [])
           @ (if AList.delete sid (players room) = [] then []
              else [(openClients (clients s) None (map fst (AList.delete sid (players room))),
                     roomClosed ''Host left'')])
           @ (if fails d (RoomService_deleteRoom rid) = None \<and> clients s \<noteq> []
              then [(openClients (clients s) None (map fst (clients s)),
                     roomListUpdated (getPublicRoomList (AList.delete rid (rooms s))))]
              else [])"
    using assms
    by (cases "fails d (RoomService_deleteRoom rid)")
       (simp_all add: leaveRoom_def Let_def rooms_simps map_of_map_entry delete_map_entry
          outbox_simps)
  show "dblog (leaveRoom d s sid) =
           dblog s @ [RoomService_leaveRoom rid pid]
           @ (if fails d (RoomService_deleteRoom rid) = None then [RoomService_deleteRoom rid] else [])"
    using assms
    by (cases "fails d (RoomService_deleteRoom rid)")
       (simp_all add: leaveRoom_def Let_def dblog_dbDo)
  show "clients (leaveRoom d s sid) = clients s"
    using assms
    by (cases "fails d (RoomService_deleteRoom rid)") (simp_all add: leaveRoom_def Let_def)
  show "clientPlayerMap (leaveRoom d s sid) = AList.delete sid (clientPlayerMap s)"
    using assms
    by (cases "fails d (RoomService_deleteRoom rid)") (simp_all add: leaveRoom_def Let_def)
qed


lemma remaining_key:
  "k \<in> fst ` set ps \<Longrightarrow> k \<noteq> sid \<Longrightarrow> k \<in> set (map fst (AList.delete sid ps))"
  by (auto simp: delete_keys)

lemma remaining_nonempty:
  "k \<in> fst ` set ps \<Longrightarrow> k \<noteq> sid \<Longrightarrow> AList.delete sid ps \<noteq> []"
  using remaining_key[of k ps sid] by auto

text \<open>
  What the two handlers do when the connection that goes holds the host session of a
  room with a non-empty id, the room being the one the handlers find for it, in a
  directory that stores every room under its own id. On a disconnect of a registered
  connection, and on a leaveRoom of a connection bound to a player id when the store's
  leaveRoom answers: the room is removed from the directory; deleteRoom is called on
  the store and, if it does not throw, the record is deleted; roomClosed is transmitted
  to every remaining session whose connection is registered and open; and no room list
  built from the directory afterwards contains the room. handleDisconnect always
  broadcasts that list, leaveRoom only when deleteRoom did not throw.
\<close>

theorem host_departure:
  assumes "findRoomOf (rooms s) sid = Some (rid, p)" and "isHost p" and "rid \<noteq> []"
      and "map_of (rooms s) rid = Some room"
      and "\<forall>kr \<in> set (rooms s). roomId (snd kr) = fst kr"
  shows
    "(map_of (clients s) sid = Some st \<longrightarrow>
        map_of (rooms (handleDisconnect d s sid)) rid = None \<and>
        rid \<notin> pub_id ` set (getPublicRoomList (rooms (handleDisconnect d s sid))) \<and>
        (fails d (RoomService_deleteRoom rid) = None \<longrightarrow>
           RoomService_deleteRoom rid \<in> set (dblog (handleDisconnect d s sid))) \<and>
        outbox (handleDisconnect d s sid) =
           outbox s
           @ (if AList.delete sid (players room) = [] then []
              else [(openClients (clients s) None (map fst (AList.delete sid (players room))),
                     roomClosed ''Host disconnected'')])
           @ [(openClients (clients s) None (map fst (clients s)),
               roomListUpdated (getPublicRoomList (rooms (handleDisconnect d s sid))))] \<and>
        (\<forall>k. k \<in> fst ` set (players room) \<and> k \<noteq> sid \<and> map_of (clients s) k = Some OPEN \<longrightarrow>
           (\<exists>rcp. (rcp, roomClosed ''Host disconnected'') \<in> set (outbox (handleDisconnect d s sid))
                  \<and> k \<in> set rcp))) \<and>
     (truthy (map_of (clientPlayerMap s) sid) = Some pid
        \<and> fails d (RoomService_leaveRoom rid pid) = None \<longrightarrow>
        map_of (rooms (leaveRoom d s sid)) rid = None \<and>
        rid \<notin> pub_id ` set (getPublicRoomList (rooms (leaveRoom d s sid))) \<and>
        (fails d (RoomService_deleteRoom rid) = None \<longrightarrow>
           RoomService_deleteRoom rid \<in> set (dblog (leaveRoom d s sid))) \<and>
        outbox (leaveRoom d s sid) =
           outbox s
           @ (if map_of (clients s) sid = Some OPEN then [([sid], leftRoom rid)] else [])
           @ (if AList.delete sid (players room) = [] then []
              else [(openClients (clients s) None (map fst (AList.delete sid (players room))),
                     roomClosed ''Host left'')])
           @ (if fails d (RoomService_deleteRoom rid) = None \<and> clients s \<noteq> []
              then [(openClients (clients s) None (map fst (clients s)),
                     roomListUpdated (getPublicRoomList (rooms (leaveRoom d s sid))))]
              else []) \<and>
        (\<forall>k. k \<in> fst ` set (players room) \<and> k \<noteq> sid \<and> map_of (clients s) k = Some OPEN \<longrightarrow>
           (\<exists>rcp. (rcp, roomClosed ''Host left'') \<in> set (outbox (leaveRoom d s sid))
                  \<and> k \<in> set rcp)))"
proof (intro conjI impI allI)
  assume reg: "map_of (clients s) sid = Some st"
  note h = handleDisconnect_host[OF reg assms(1-4), of d]
  show "map_of (rooms (handleDisconnect d s sid)) rid = None"
    by (simp add: h(1) delete_conv')
  show "rid \<notin> pub_id ` set (getPublicRoomList (rooms (handleDisconnect d s sid)))"
    unfolding h(1) by (rule pub_ids_delete[OF assms(5)])
  show "RoomService_deleteRoom rid \<in> set (dblog (handleDisconnect d s sid))"
    if "fails d (RoomService_deleteRoom rid) = None"
    using that by (simp add: h(3))
  show "outbox (handleDisconnect d s sid) =
           outbox s
           @ (if AList.delete sid (players room) = [] then []
              else [(openClients (clients s) None (map fst (AList.delete sid (players room))),
                     roomClosed ''Host disconnected'')])
           @ [(openClients (clients s) None (map fst (clients s)),
               roomListUpdated (getPublicRoomList (rooms (handleDisconnect d s sid))))]"
    by (simp add: h(1) h(2))
  show "\<exists>rcp. (rcp, roomClosed ''Host disconnected'') \<in> set (outbox (handleDisconnect d s sid))
                  \<and> k \<in> set rcp"
    if k: "k \<in> fst ` set (players room) \<and> k \<noteq> sid \<and> map_of (clients s) k = Some OPEN" for k
  proof -
    from k have k1: "k \<in> fst ` set (players room)" and k2: "k \<noteq> sid"
      and k3: "map_of (clients s) k = Some OPEN" by simp_all
    have ne: "AList.delete sid (players room) \<noteq> []"
      by (rule remaining_nonempty[OF k1 k2])
    have "k \<in> set (openClients (clients s) None (map fst (AList.delete sid (players room))))"
      using remaining_key[OF k1 k2] k3 by (simp add: openClients_iff)
    then have "(openClients (clients s) None (map fst (AList.delete sid (players room))),
                 roomClosed ''Host disconnected'') \<in> set (outbox (handleDisconnect d s sid))
               \<and> k \<in> set (openClients (clients s) None (map fst (AList.delete sid (players room))))"
      using ne by (simp add: h(2))
    then show ?thesis by (rule exI)
  qed
next
  assume l: "truthy (map_of (clientPlayerMap s) sid) = Some pid
        \<and> fails d (RoomService_leaveRoom rid pid) = None"
  then have l1: "truthy (map_of (clientPlayerMap s) sid) = Some pid"
    and l2: "fails d (RoomService_leaveRoom rid pid) = None" by simp_all
  note h = leaveRoom_host[OF assms(1-4) l1 l2]
  show "map_of (rooms (leaveRoom d s sid)) rid = None"
    by (simp add: h(1) delete_conv')
  show "rid \<notin> pub_id ` set (getPublicRoomList (rooms (leaveRoom d s sid)))"
    unfolding h(1) by (rule pub_ids_delete[OF assms(5)])
  show "RoomService_deleteRoom rid \<in> set (dblog (leaveRoom d s sid))"
    if "fails d (RoomService_deleteRoom rid) = None"
    using that by (simp add: h(3))
  show "outbox (leaveRoom d s sid) =
           outbox s
           @ (if map_of (clients s) sid = Some OPEN then [([sid], leftRoom rid)] else [])
           @ (if AList.delete sid (players room) = [] then []
              else [(openClients (clients s) None (map fst (AList.delete sid (players room))),
                     roomClosed ''Host left'')])
           @ (if fails d (RoomService_deleteRoom rid) = None \<and> clients s \<noteq> []
              then [(openClients (clients s) None (map fst (clients s)),
                     roomListUpdated (getPublicRoomList (rooms (leaveRoom d s sid))))]
              else [])"
    by (simp add: h(1) h(2))
  show "\<exists>rcp. (rcp, roomClosed ''Host left'') \<in> set (outbox (leaveRoom d s sid)) \<and> k \<in> set rcp"
    if k: "k \<in> fst ` set (players room) \<and> k \<noteq> sid \<and> map_of (clients s) k = Some OPEN" for k
  proof -
    from k have k1: "k \<in> fst ` set (players room)" and k2: "k \<noteq> sid"
      and k3: "map_of (clients s) k = Some OPEN" by simp_all
    have ne: "AList.delete sid (players room) \<noteq> []"
      by (rule remaining_nonempty[OF k1 k2])
    have "k \<in> set (openClients (clients s) None (map fst (AList.delete sid (players room))))"
      using remaining_key[OF k1 k2] k3 by (simp add: openClients_iff)
    then have "(openClients (clients s) None (map fst (AList.delete sid (players room))),
                 roomClosed ''Host left'') \<in> set (outbox (leaveRoom d s sid))
               \<and> k \<in> set (openClients (clients s) None (map fst (AList.delete sid (players room))))"
      using ne by (simp add: h(2))
    then show ?thesis by (rule exI)
  qed
qed

text \<open>The room of alice and bob, alice going, the store answering.\<close>

lemma host_departure_example:
  "findRoomOf (rooms ex_lobby) ''c1'' = Some (''1'', newPlayerData ex_alice ''c1'' True Ready) \<and>
   map_of (clients ex_lobby) ''c1'' = Some OPEN \<and>
   map_of (rooms (handleDisconnect ex_store ex_lobby ''c1'')) ''1'' = None \<and>
   RoomService_deleteRoom ''1'' \<in> set (dblog (handleDisconnect ex_store ex_lobby ''c1'')) \<and>
   outbox (handleDisconnect ex_store ex_lobby ''c1'') =
     [([''c2''], roomClosed ''Host disconnected''),
      ([''c1'', ''c2''], roomListUpdated (getPublicRoomList (rooms (handleDisconnect ex_store ex_lobby ''c1''))))] \<and>
   map_of (rooms (leaveRoom ex_store ex_lobby ''c1'')) ''1'' = None"
proof -
  let ?p = "newPlayerData ex_alice ''c1'' True Ready"
  have h1: "findRoomOf (rooms ex_lobby) ''c1'' = Some (''1'', ?p)"
    by (simp add: ex_lobby_def ex_room_def)
  have h2: "isHost ?p" by (simp add: newPlayerData_def)
  have h3: "''1'' \<noteq> ([]::string)" by simp
  have h4: "map_of (rooms ex_lobby) ''1'' = Some ex_room" by (simp add: ex_lobby_def)
  have h5: "\<forall>kr \<in> set (rooms ex_lobby). roomId (snd kr) = fst kr"
    by (simp add: ex_lobby_def ex_room_def)
  have c: "map_of (clients ex_lobby) ''c1'' = Some OPEN" by (simp add: ex_lobby_def)
  have m: "truthy (map_of (clientPlayerMap ex_lobby) ''c1'') = Some ''p1''"
    by (simp add: ex_lobby_def truthy_def)
  have ok: "fails ex_store (RoomService_leaveRoom ''1'' ''p1'') = None"
      "fails ex_store (RoomService_deleteRoom ''1'') = None"
    by (simp_all add: ex_store_def)
  note f = host_departure [OF h1 h2 h3 h4 h5, of OPEN ex_store "''p1''"]
  note f1 = f [THEN conjunct1, THEN mp, OF c]
  have a: "map_of (rooms (handleDisconnect ex_store ex_lobby ''c1'')) ''1'' = None"
    by (rule f1 [THEN conjunct1])
  have b: "RoomService_deleteRoom ''1'' \<in> set (dblog (handleDisconnect ex_store ex_lobby ''c1''))"
    by (rule f1 [THEN conjunct2, THEN conjunct2, THEN conjunct1, THEN mp, OF ok(2)])
  have "outbox (handleDisconnect ex_store ex_lobby ''c1'') =
           outbox ex_lobby
           @ (if AList.delete ''c1'' (players ex_room) = [] then []
              else [(openClients (clients ex_lobby) None (map fst (AList.delete ''c1'' (players ex_room))),
                     roomClosed ''Host disconnected'')])
           @ [(openClients (clients ex_lobby) None (map fst (clients ex_lobby)),
               roomListUpdated (getPublicRoomList (rooms (handleDisconnect ex_store ex_lobby ''c1''))))]"
    by (rule f1 [THEN conjunct2, THEN conjunct2, THEN conjunct2, THEN conjunct1])
  then have o: "outbox (handleDisconnect ex_store ex_lobby ''c1'') =
     [([''c2''], roomClosed ''Host disconnected''),
      ([''c1'', ''c2''], roomListUpdated (getPublicRoomList (rooms (handleDisconnect ex_store ex_lobby ''c1''))))]"
    by (simp add: ex_lobby_def ex_room_def openClients_def)
  have l: "map_of (rooms (leaveRoom ex_store ex_lobby ''c1'')) ''1'' = None"
    by (rule f [THEN conjunct2, THEN mp, OF conjI [OF m ok(1)], THEN conjunct1])
  from h1 c a b o l show ?thesis by simp
qed

text \<open>
  With the store down, a disconnect of the host still removes the room from the
  directory and tells the other session so; handleDisconnect catches the failure of
  deleteRoom and goes on, so nothing is deleted in the store.
\<close>

lemma handleDisconnect_host_store_down:
  "rooms (handleDisconnect ex_store_down ex_lobby ''c1'') = [] \<and>
   dblog (handleDisconnect ex_store_down ex_lobby ''c1'') = [] \<and>
   outbox (handleDisconnect ex_store_down ex_lobby ''c1'') =
     [([''c2''], roomClosed ''Host disconnected''), ([''c1'', ''c2''], roomListUpdated [])]"
  by (simp add: handleDisconnect_def Let_def removePlayer_def dbDo_def broadcastToRoom_def
       broadcastRoomList_def broadcastToAll_def openClients_def getPublicRoomList_def
       newPlayerData_def ex_lobby_def ex_room_def ex_store_down_def ex_store_def)

text \<open>
  When only deleteRoom throws, leaveRoom has removed the room and sent roomClosed
  before; it then skips the room list broadcast.
\<close>

lemma leaveRoom_host_deleteRoom_throws:
  "leaveRoom (ex_store\<lparr>fails := (\<lambda>c. if c = RoomService_deleteRoom ''1''
                                        then Some ''store down'' else None)\<rparr>) ex_lobby ''c1'' =
     ex_lobby\<lparr>rooms := [], clientPlayerMap := [(''c2'', ''p2'')],
              outbox := [([''c1''], leftRoom ''1''), ([''c2''], roomClosed ''Host left'')],
              dblog := [RoomService_leaveRoom ''1'' ''p1'']\<rparr>"
  by (simp add: leaveRoom_def Let_def removePlayer_def dbDo_def sendToClient_def truthy_def
       broadcastToRoom_def openClients_def newPlayerData_def ex_lobby_def ex_room_def ex_store_def)

text \<open>
  C4 at the input that breaks it. The host of room 1 (connection c1; c2 has joined)
  sends leaveRoom, and the store's leaveRoom throws. The handler has already told c1
  that it left and removed its session and its binding; the throw takes it past the
  deletion of the room to its catch block, which only logs. The room stays in the
  directory with c2 as its only session and no host, c2 is sent nothing, no room list
  is broadcast, and the next list built from the directory still contains room 1.
  handleDisconnect, on the same state and store, catches the failure of the store
  where it occurs and removes the room.
\<close>

theorem C4_host_leaves_store_throws:
  "findRoomOf (rooms ex_lobby) ''c1'' = Some (''1'', newPlayerData ex_alice ''c1'' True Ready) \<and>
   isHost (newPlayerData ex_alice ''c1'' True Ready) \<and>
   leaveRoom ex_store_no_record ex_lobby ''c1'' =
     ex_lobby\<lparr>rooms := [(''1'', ex_room\<lparr>players := [(''c2'', newPlayerData ex_bob ''c2'' False Ready)]\<rparr>)],
              clientPlayerMap := [(''c2'', ''p2'')],
              outbox := [([''c1''], leftRoom ''1'')]\<rparr> \<and>
   map pub_id (getPublicRoomList (rooms (leaveRoom ex_store_no_record ex_lobby ''c1''))) = [''1''] \<and>
   rooms (handleDisconnect ex_store_no_record ex_lobby ''c1'') = [] \<and>
   outbox (handleDisconnect ex_store_no_record ex_lobby ''c1'') =
     [([''c2''], roomClosed ''Host disconnected''), ([''c1'', ''c2''], roomListUpdated [])]"
  by (simp add: leaveRoom_def handleDisconnect_def Let_def removePlayer_def dbDo_def
       sendToClient_def truthy_def broadcastToRoom_def broadcastRoomList_def broadcastToAll_def
       openClients_def getPublicRoomList_def newPlayerData_def
       ex_lobby_def ex_room_def ex_store_no_record_def ex_store_def)
section \<open>The load barrier\<close>

lemma list_all_delete: "list_all P (map snd ps) \<Longrightarrow> list_all P (map snd (AList.delete k ps))"
  by (induct ps) auto

lemma list_all_map_entry:
  "list_all P (map snd ps) \<Longrightarrow> (\<And>v. P v \<Longrightarrow> P (f v)) \<Longrightarrow> list_all P (map snd (AList.map_entry k f ps))"
  by (induct ps) auto

lemma aplCount_cong: "outbox t = outbox s \<Longrightarrow> aplCount rid t = aplCount rid s"
  by (simp add: aplCount_def)

lemma aplCount_append:
  "outbox t = outbox s @ out \<Longrightarrow>
   aplCount rid t = aplCount rid s + length (filter (\<lambda>t. snd t = allPlayersLoaded rid) out)"
  by (simp add: aplCount_def)


lemma aplCount_sendToClient [simp]:
  "m \<noteq> allPlayersLoaded rid \<Longrightarrow> aplCount rid (sendToClient s c m) = aplCount rid s"
  by (simp add: aplCount_def sendToClient_def)

lemma aplCount_sendError [simp]: "aplCount rid (sendError d s c m e) = aplCount rid s"
  by (simp add: sendError_def)

lemma aplCount_broadcastToAll [simp]:
  "m \<noteq> allPlayersLoaded rid \<Longrightarrow> aplCount rid (broadcastToAll s m e) = aplCount rid s"
  by (simp add: aplCount_def broadcastToAll_def)

lemma aplCount_broadcastToRoom [simp]:
  "m \<noteq> allPlayersLoaded rid \<Longrightarrow> aplCount rid (broadcastToRoom s r m e) = aplCount rid s"
  by (simp add: aplCount_def broadcastToRoom_def split: option.splits)

lemma aplCount_broadcastRoomList [simp]: "aplCount rid (broadcastRoomList s) = aplCount rid s"
  by (simp add: broadcastRoomList_def)

lemma aplCount_dbDo [simp]: "aplCount rid (dbDo d c s) = aplCount rid s"
  by (simp add: aplCount_def)

lemma aplCount_removePlayer [simp]: "aplCount rid (removePlayer r i s) = aplCount rid s"
  by (simp add: aplCount_def)

lemma aplCount_updatePlayer [simp]: "aplCount rid (updatePlayer r i f s) = aplCount rid s"
  by (simp add: aplCount_def)

lemma aplCount_setRoomStatus [simp]: "aplCount rid (setRoomStatus r st s) = aplCount rid s"
  by (simp add: aplCount_def)

lemma aplCount_rooms_update [simp]: "aplCount rid (s\<lparr>rooms := x\<rparr>) = aplCount rid s"
  by (simp add: aplCount_def)

lemma aplCount_clients_update [simp]: "aplCount rid (s\<lparr>clients := x\<rparr>) = aplCount rid s"
  by (simp add: aplCount_def)

lemma aplCount_cpm_update [simp]: "aplCount rid (s\<lparr>clientPlayerMap := x\<rparr>) = aplCount rid s"
  by (simp add: aplCount_def)

lemma aplCount_dblog_update [simp]: "aplCount rid (s\<lparr>dblog := x\<rparr>) = aplCount rid s"
  by (simp add: aplCount_def)

lemma kick_apl: "aplCount rid (kickPlayer d s sid data) = aplCount rid s"
  by (simp add: kickPlayer_def Let_def split: payload.splits option.splits)

lemma leave_apl: "aplCount rid (leaveRoom d s sid) = aplCount rid s"
  by (simp add: leaveRoom_def Let_def split: option.splits prod.splits)

lemma disconnect_apl: "aplCount rid (handleDisconnect d s sid) = aplCount rid s"
  by (simp add: handleDisconnect_def Let_def split: option.splits prod.splits)

lemma ready_apl: "aplCount rid (playerReady d s sid data) = aplCount rid s"
  by (simp add: playerReady_def Let_def split: payload.splits option.splits)

lemma car_apl: "aplCount rid (playerChangeCar d s sid data) = aplCount rid s"
  by (simp add: playerChangeCar_def Let_def split: payload.splits option.splits)

lemma waiting_apl: "aplCount rid (updateStatusWaitingRoom d s sid data) = aplCount rid s"
  by (simp add: updateStatusWaitingRoom_def Let_def
        split: payload.splits option.splits prod.splits)

lemma startFailed_apl: "aplCount rid (startGame_failed d s sid r e) = aplCount rid s"
  by (simp add: startGame_failed_def Let_def split: option.splits)

lemma start_apl: "aplCount rid (startGame d s sid data) = aplCount rid s"
  by (simp add: startGame_def startFailed_apl Let_def split: payload.splits option.splits)

lemma create_apl: "aplCount rid (createRoom d s sid data) = aplCount rid s"
  by (simp add: createRoom_def createRoom_store_def Let_def
        split: payload.splits option.splits)

lemma joinFailed_apl: "aplCount rid (joinRoom_failed d s sid dto e) = aplCount rid s"
  by (simp add: joinRoom_failed_def Let_def split: option.splits)

lemma joinStore_apl: "aplCount rid (joinRoom_store d s sid dto p) = aplCount rid s"
  by (simp add: joinRoom_store_def joinFailed_apl Let_def split: option.splits)

lemma join_apl: "aplCount rid (joinRoom d s sid data) = aplCount rid s"
  by (simp add: joinRoom_def joinFailed_apl joinStore_apl Let_def
        split: payload.splits option.splits)

lemma syncPosition_apl: "syncPosition s sid data = Inr t \<Longrightarrow> aplCount rid t = aplCount rid s"
  by (auto simp: syncPosition_def Let_def
        split: payload.splits option.splits RoomRef.splits if_splits)

lemma syncCarPosition_apl: "syncCarPosition s sid data = Inr t \<Longrightarrow> aplCount rid t = aplCount rid s"
  by (auto simp: syncCarPosition_def Let_def
        split: payload.splits option.splits RoomRef.splits if_splits)

lemma connection_apl: "aplCount rid (handleConnection s sid) = aplCount rid s"
  by (simp add: handleConnection_def Let_def)



lemma keepsLoaded_None [simp]: "keepsLoaded r0 None"
  by (simp add: keepsLoaded_def)

lemma keepsLoaded_same [simp]: "keepsLoaded r0 (Some r0)"
  by (simp add: keepsLoaded_def)

lemma keepsLoaded_not_running [simp]: "roomStatus r' \<noteq> RUNNING \<Longrightarrow> keepsLoaded r0 (Some r')"
  by (simp add: keepsLoaded_def)

lemma keepsLoaded_delete [simp]:
  "keepsLoaded r0 (Some (r0\<lparr>players := AList.delete k (players r0)\<rparr>))"
  by (simp add: keepsLoaded_def list_all_delete)

lemma keepsLoaded_map_entry [simp]:
  "(\<And>v. isLoaded v \<Longrightarrow> isLoaded (f v)) \<Longrightarrow>
   keepsLoaded r0 (Some (r0\<lparr>players := AList.map_entry k f (players r0)\<rparr>))"
  by (simp add: keepsLoaded_def list_all_map_entry)

lemmas room_simps = rooms_simps map_of_map_entry update_conv' delete_conv' map_of_assignKey

lemma kick_keeps:
  "map_of (rooms s) rid = Some r0 \<Longrightarrow> roomStatus r0 = RUNNING \<Longrightarrow>
   keepsLoaded r0 (map_of (rooms (kickPlayer d s sid data)) rid)"
  by (auto simp: kickPlayer_def Let_def room_simps split: payload.splits option.splits)

lemma ready_keeps:
  "map_of (rooms s) rid = Some r0 \<Longrightarrow> roomStatus r0 = RUNNING \<Longrightarrow>
   keepsLoaded r0 (map_of (rooms (playerReady d s sid data)) rid)"
  by (auto simp: playerReady_def Let_def room_simps split: payload.splits option.splits)

lemma car_keeps:
  "map_of (rooms s) rid = Some r0 \<Longrightarrow> roomStatus r0 = RUNNING \<Longrightarrow>
   keepsLoaded r0 (map_of (rooms (playerChangeCar d s sid data)) rid)"
  by (auto simp: playerChangeCar_def Let_def room_simps split: payload.splits option.splits)


lemma leave_keeps:
  "map_of (rooms s) rid = Some r0 \<Longrightarrow> roomStatus r0 = RUNNING \<Longrightarrow>
   keepsLoaded r0 (map_of (rooms (leaveRoom d s sid)) rid)"
  by (auto simp: leaveRoom_def Let_def room_simps split: option.splits prod.splits)

lemma disconnect_keeps:
  "map_of (rooms s) rid = Some r0 \<Longrightarrow> roomStatus r0 = RUNNING \<Longrightarrow>
   keepsLoaded r0 (map_of (rooms (handleDisconnect d s sid)) rid)"
  by (auto simp: handleDisconnect_def Let_def room_simps split: option.splits prod.splits)

lemma waiting_keeps:
  "map_of (rooms s) rid = Some r0 \<Longrightarrow> roomStatus r0 = RUNNING \<Longrightarrow>
   keepsLoaded r0 (map_of (rooms (updateStatusWaitingRoom d s sid data)) rid)"
  by (auto simp: updateStatusWaitingRoom_def Let_def room_simps
        split: payload.splits option.splits prod.splits)

lemma startFailed_keeps:
  "keepsLoaded r0 (map_of (rooms s) rid) \<Longrightarrow>
   keepsLoaded r0 (map_of (rooms (startGame_failed d s sid r e)) rid)"
  by (auto simp: startGame_failed_def Let_def room_simps split: option.splits)

lemma start_keeps:
  "map_of (rooms s) rid = Some r0 \<Longrightarrow> roomStatus r0 = RUNNING \<Longrightarrow>
   keepsLoaded r0 (map_of (rooms (startGame d s sid data)) rid)"
  by (auto simp: startGame_def Let_def room_simps intro!: startFailed_keeps
        split: payload.splits option.splits)

lemma create_keeps:
  "map_of (rooms s) rid = Some r0 \<Longrightarrow> roomStatus r0 = RUNNING \<Longrightarrow>
   keepsLoaded r0 (map_of (rooms (createRoom d s sid data)) rid)"
  by (auto simp: createRoom_def createRoom_store_def Let_def room_simps
        split: payload.splits option.splits)

lemma join_keeps:
  "map_of (rooms s) rid = Some r0 \<Longrightarrow> roomStatus r0 = RUNNING \<Longrightarrow>
   keepsLoaded r0 (map_of (rooms (joinRoom d s sid data)) rid)"
  by (auto simp: joinRoom_def joinRoom_store_def Let_def room_simps
        split: payload.splits option.splits)

lemma syncPosition_keeps:
  "map_of (rooms s) rid = Some r0 \<Longrightarrow> roomStatus r0 = RUNNING \<Longrightarrow>
   syncPosition s sid data = Inr t \<Longrightarrow> keepsLoaded r0 (map_of (rooms t) rid)"
  by (auto simp: syncPosition_def Let_def room_simps
        split: payload.splits option.splits RoomRef.splits if_splits)

lemma syncCarPosition_keeps:
  "map_of (rooms s) rid = Some r0 \<Longrightarrow> roomStatus r0 = RUNNING \<Longrightarrow>
   syncCarPosition s sid data = Inr t \<Longrightarrow> keepsLoaded r0 (map_of (rooms t) rid)"
  by (auto simp: syncCarPosition_def Let_def room_simps
        split: payload.splits option.splits RoomRef.splits if_splits)

lemma connection_keeps:
  "map_of (rooms s) rid = Some r0 \<Longrightarrow> roomStatus r0 = RUNNING \<Longrightarrow>
   keepsLoaded r0 (map_of (rooms (handleConnection s sid)) rid)"
  by (simp add: handleConnection_def Let_def)

lemma loading_keeps:
  "map_of (rooms s) rid = Some r0 \<Longrightarrow> roomStatus r0 = RUNNING \<Longrightarrow>
   keepsLoaded r0 (map_of (rooms (loadingGame s sid data)) rid)"
  by (auto simp: loadingGame_def Let_def room_simps
        split: payload.splits option.splits)


lemma aplCount_broadcast_apl:
  "aplCount rid (broadcastToRoom s r (allPlayersLoaded r') e) =
     aplCount rid s + (if r' = rid \<and> roomPlayers s r \<noteq> [] then 1 else 0)"
  by (simp add: aplCount_def broadcastToRoom_def roomPlayers_def split: option.splits)

lemma lookup_in_set: "map_of ps k = Some v \<Longrightarrow> v \<in> snd ` set ps"
  by (force dest: map_of_SomeD)

lemma map_entry_Nil_iff: "AList.map_entry k f ps = [] \<longleftrightarrow> ps = []"
  by (cases ps) auto

lemma roomPlayers_updatePlayer:
  "map_of (rooms s) r = Some room \<Longrightarrow>
   roomPlayers (updatePlayer r k f s) r = map snd (AList.map_entry k f (players room))"
  by (simp add: roomPlayers_def rooms_updatePlayer map_of_map_entry)

lemma roomPlayers_broadcastToRoom [simp]:
  "roomPlayers (broadcastToRoom s r m e) r' = roomPlayers s r'"
  by (simp add: roomPlayers_def)

lemma loadingGame_unloaded:
  assumes "map_of (rooms s) (lg_roomID dto) = Some room" and "roomStatus room = RUNNING"
      and "senderPlayer s room sid (lg_playerID dto) = Some player" and "\<not> isLoaded player"
  shows "loadingGame s sid (Fields dto) =
     (let s1 = updatePlayer (lg_roomID dto) sid (\<lambda>p. p\<lparr>isLoaded := True, status := Ready\<rparr>) s;
          s2 = broadcastToRoom s1 (lg_roomID dto) (updatePlayers (roomPlayers s1 (lg_roomID dto))) None
      in if roomPlayers s1 (lg_roomID dto) \<noteq> [] \<and> list_all isLoaded (roomPlayers s1 (lg_roomID dto))
         then broadcastToRoom s2 (lg_roomID dto) (allPlayersLoaded (lg_roomID dto)) None
         else s2)"
  using assms by (simp add: loadingGame_def Let_def)

lemma loadingGame_no_op:
  assumes "\<not> (\<exists>room player. map_of (rooms s) (lg_roomID dto) = Some room \<and> roomStatus room = RUNNING
             \<and> senderPlayer s room sid (lg_playerID dto) = Some player \<and> \<not> isLoaded player)"
  shows "loadingGame s sid (Fields dto) = s"
  using assms by (auto simp: loadingGame_def Let_def split: option.splits)


lemma running_cong: "rooms t = rooms s \<Longrightarrow> running t rid = running s rid"
  by (simp add: running_def)

lemma roomPlayers_cong: "rooms t = rooms s \<Longrightarrow> roomPlayers t rid = roomPlayers s rid"
  by (simp add: roomPlayers_def)

lemma running_updatePlayer [simp]: "running (updatePlayer r k f s) rid = running s rid"
  by (auto simp: running_def rooms_updatePlayer map_of_map_entry split: option.splits)

lemma loading_step:
  "aplCount rid (loadingGame s sid data) = aplCount rid s \<or>
   (aplCount rid (loadingGame s sid data) = aplCount rid s + 1
      \<and> (\<exists>dto. data = Fields dto \<and> lg_roomID dto = rid)
      \<and> running s rid \<and> \<not> allLoaded s rid
      \<and> running (loadingGame s sid data) rid
      \<and> roomPlayers (loadingGame s sid data) rid \<noteq> []
      \<and> allLoaded (loadingGame s sid data) rid)"
proof (cases data)
  case NoData
  then show ?thesis by (simp add: loadingGame_def)
next
  case BadFields
  then show ?thesis by (simp add: loadingGame_def)
next
  case (Fields dto)
  let ?r = "lg_roomID dto"
  let ?s1 = "updatePlayer ?r sid (\<lambda>p. p\<lparr>isLoaded := True, status := Ready\<rparr>) s"
  let ?s2 = "broadcastToRoom ?s1 ?r (updatePlayers (roomPlayers ?s1 ?r)) None"
  show ?thesis
  proof (cases "\<exists>room player. map_of (rooms s) ?r = Some room \<and> roomStatus room = RUNNING
             \<and> senderPlayer s room sid (lg_playerID dto) = Some player \<and> \<not> isLoaded player")
    case False
    then have "loadingGame s sid (Fields dto) = s" by (rule loadingGame_no_op)
    with Fields show ?thesis by simp
  next
    case True
    then obtain room player where room: "map_of (rooms s) ?r = Some room"
      and st: "roomStatus room = RUNNING"
      and sp: "senderPlayer s room sid (lg_playerID dto) = Some player"
      and nl: "\<not> isLoaded player" by blast
    note lg = loadingGame_unloaded[OF room st sp nl]
    have pl: "map_of (players room) sid = Some player"
      using sp by (simp add: senderPlayer_def split: option.splits if_splits)
    show ?thesis
    proof (cases "roomPlayers ?s1 ?r \<noteq> [] \<and> list_all isLoaded (roomPlayers ?s1 ?r)")
      case False
      have "loadingGame s sid (Fields dto) = ?s2"
        unfolding lg Let_def by (rule if_not_P[OF False])
      then have "aplCount rid (loadingGame s sid (Fields dto)) = aplCount rid s" by simp
      with Fields show ?thesis by simp
    next
      case True
      have eq: "loadingGame s sid (Fields dto) = broadcastToRoom ?s2 ?r (allPlayersLoaded ?r) None"
        unfolding lg Let_def by (rule if_P[OF True])
      show ?thesis
      proof (cases "?r = rid")
        case False
        then have "aplCount rid (loadingGame s sid (Fields dto)) = aplCount rid s"
          by (simp add: eq)
        with Fields show ?thesis by simp
      next
        case r: True
        have c: "aplCount rid (loadingGame s sid (Fields dto)) = aplCount rid s + 1"
          using True r by (simp add: eq aplCount_broadcast_apl)
        have rs: "rooms (loadingGame s sid (Fields dto)) = rooms ?s1" by (simp add: eq)
        have r1: "running s rid" using room st r by (simp add: running_def)
        have r2: "running (loadingGame s sid (Fields dto)) rid"
          using r1 by (simp add: running_cong[OF rs])
        have p1: "roomPlayers (loadingGame s sid (Fields dto)) rid \<noteq> []"
          using True r by (simp add: roomPlayers_cong[OF rs])
        have a1: "allLoaded (loadingGame s sid (Fields dto)) rid"
          using True r by (simp add: allLoaded_def roomPlayers_cong[OF rs])
        have "player \<in> snd ` set (players room)" by (rule lookup_in_set[OF pl])
        then have a0: "\<not> allLoaded s rid"
          using nl room r by (auto simp: allLoaded_def roomPlayers_def list_all_iff)
        from c r r1 r2 p1 a1 a0 Fields show ?thesis by simp
      qed
    qed
  qed
qed


lemma handleMessage_keeps:
  assumes "map_of (rooms s) rid = Some r0" and "roomStatus r0 = RUNNING"
      and "handleMessage d s sid m = Inr t"
  shows "keepsLoaded r0 (map_of (rooms t) rid)"
proof (cases m)
  case (E_createRoom x) with assms show ?thesis using create_keeps by auto
next
  case (E_joinRoom x) with assms show ?thesis using join_keeps by auto
next
  case E_leaveRoom with assms show ?thesis using leave_keeps by auto
next
  case (E_kickPlayer x) with assms show ?thesis using kick_keeps by auto
next
  case (E_startGame x) with assms show ?thesis using start_keeps by auto
next
  case (E_loadingGame x) with assms show ?thesis using loading_keeps by auto
next
  case (E_playerReady x) with assms show ?thesis using ready_keeps by auto
next
  case (E_playerChangeCar x) with assms show ?thesis using car_keeps by auto
next
  case (E_syncPosition x) with assms show ?thesis using syncPosition_keeps by auto
next
  case (E_syncCarPosition x) with assms show ?thesis using syncCarPosition_keeps by auto
next
  case E_ping_check with assms show ?thesis by auto
next
  case (E_waitingRoom x) with assms show ?thesis using waiting_keeps by auto
next
  case (E_other x) with assms show ?thesis by auto
qed

lemma onMessage_keeps:
  assumes "map_of (rooms s) rid = Some r0" and "roomStatus r0 = RUNNING"
  shows "keepsLoaded r0 (map_of (rooms (onMessage d s sid raw)) rid)"
proof (cases raw)
  case Unparseable with assms show ?thesis by (simp add: onMessage_def)
next
  case Malformed with assms show ?thesis by (simp add: onMessage_def)
next
  case (Envelope m)
  show ?thesis
  proof (cases "handleMessage d s sid m")
    case (Inl e) with Envelope assms show ?thesis by (simp add: onMessage_def)
  next
    case (Inr t)
    with Envelope handleMessage_keeps[OF assms Inr] show ?thesis by (simp add: onMessage_def)
  qed
qed

lemma step_keeps:
  assumes "map_of (rooms s) rid = Some r0" and "roomStatus r0 = RUNNING"
  shows "keepsLoaded r0 (map_of (rooms (step s ev)) rid)"
proof (cases ev)
  case (Pair d stim)
  show ?thesis
  proof (cases stim)
    case (on_connection sid) with Pair connection_keeps[OF assms] show ?thesis by simp
  next
    case (on_message sid raw) with Pair onMessage_keeps[OF assms] show ?thesis by simp
  next
    case (on_close sid) with Pair disconnect_keeps[OF assms] show ?thesis by simp
  next
    case (on_error sid) with Pair disconnect_keeps[OF assms] show ?thesis by simp
  qed
qed

lemma step_loaded:
  assumes "running s rid" and "running (step s ev) rid" and "allLoaded s rid"
  shows "allLoaded (step s ev) rid"
proof -
  from assms(1) obtain r0 where r0: "map_of (rooms s) rid = Some r0" "roomStatus r0 = RUNNING"
    by (auto simp: running_def split: option.splits)
  from assms(2) obtain r1 where r1: "map_of (rooms (step s ev)) rid = Some r1" "roomStatus r1 = RUNNING"
    by (auto simp: running_def split: option.splits)
  from step_keeps[OF r0, of ev] r1 assms(3) r0 show ?thesis
    by (simp add: keepsLoaded_def allLoaded_def roomPlayers_def)
qed

lemma handleMessage_apl:
  assumes "handleMessage d s sid m = Inr t" and "aplCount rid t \<noteq> aplCount rid s"
  shows "\<exists>data. m = E_loadingGame data"
proof (cases m)
  case (E_createRoom x) with assms show ?thesis by (auto simp: create_apl)
next
  case (E_joinRoom x) with assms show ?thesis by (auto simp: join_apl)
next
  case E_leaveRoom with assms show ?thesis by (auto simp: leave_apl)
next
  case (E_kickPlayer x) with assms show ?thesis by (auto simp: kick_apl)
next
  case (E_startGame x) with assms show ?thesis by (auto simp: start_apl)
next
  case (E_loadingGame x) then show ?thesis by simp
next
  case (E_playerReady x) with assms show ?thesis by (auto simp: ready_apl)
next
  case (E_playerChangeCar x) with assms show ?thesis by (auto simp: car_apl)
next
  case (E_syncPosition x) with assms show ?thesis by (auto dest: syncPosition_apl)
next
  case (E_syncCarPosition x) with assms show ?thesis by (auto dest: syncCarPosition_apl)
next
  case E_ping_check with assms show ?thesis by auto
next
  case (E_waitingRoom x) with assms show ?thesis by (auto simp: waiting_apl)
next
  case (E_other x) with assms show ?thesis by auto
qed

lemma step_apl:
  assumes "aplCount rid (step s ev) \<noteq> aplCount rid s"
  shows "\<exists>d sid data. ev = (d, on_message sid (Envelope (E_loadingGame data)))"
proof (cases ev)
  case (Pair d stim)
  show ?thesis
  proof (cases stim)
    case (on_connection sid) with Pair assms show ?thesis by (simp add: connection_apl)
  next
    case (on_close sid) with Pair assms show ?thesis by (simp add: disconnect_apl)
  next
    case (on_error sid) with Pair assms show ?thesis by (simp add: disconnect_apl)
  next
    case (on_message sid raw)
    show ?thesis
    proof (cases raw)
      case Unparseable with on_message Pair assms show ?thesis by (simp add: onMessage_def)
    next
      case Malformed with on_message Pair assms show ?thesis by (simp add: onMessage_def)
    next
      case (Envelope m)
      show ?thesis
      proof (cases "handleMessage d s sid m")
        case (Inl e) with Envelope on_message Pair assms show ?thesis by (simp add: onMessage_def)
      next
        case (Inr t)
        with Envelope on_message Pair assms have "aplCount rid t \<noteq> aplCount rid s"
          by (simp add: onMessage_def)
        from handleMessage_apl[OF Inr this] Envelope on_message Pair show ?thesis by auto
      qed
    qed
  qed
qed

lemma step_count:
  "aplCount rid (step s ev) = aplCount rid s \<or>
   (aplCount rid (step s ev) = aplCount rid s + 1
      \<and> (\<exists>d sid dto. ev = (d, on_message sid (Envelope (E_loadingGame (Fields dto))))
                       \<and> lg_roomID dto = rid)
      \<and> running s rid \<and> \<not> allLoaded s rid
      \<and> running (step s ev) rid
      \<and> roomPlayers (step s ev) rid \<noteq> []
      \<and> allLoaded (step s ev) rid)"
proof (cases "aplCount rid (step s ev) = aplCount rid s")
  case True then show ?thesis by simp
next
  case False
  from step_apl[OF False] obtain d sid data where
    ev: "ev = (d, on_message sid (Envelope (E_loadingGame data)))" by blast
  then have st: "step s ev = loadingGame s sid data" by (simp add: onMessage_def)
  from loading_step[of rid s sid data] False st ev show ?thesis by auto
qed

lemma episode_running: "episode rid s evs \<Longrightarrow> running s rid"
  by (cases evs) simp_all

lemma episode_count:
  "episode rid s evs \<Longrightarrow>
   aplCount rid (run s evs) \<le> aplCount rid s + (if allLoaded s rid then 0 else 1)"
proof (induction evs arbitrary: s)
  case Nil
  then show ?case by (simp add: run_def)
next
  case (Cons ev evs)
  then have r0: "running s rid" and ep: "episode rid (step s ev) evs" by simp_all
  have r1: "running (step s ev) rid" by (rule episode_running[OF ep])
  have run: "run s (ev # evs) = run (step s ev) evs" by (simp add: run_def)
  note ih = Cons.IH[OF ep]
  show ?case
  proof (cases "allLoaded s rid")
    case True
    then have "allLoaded (step s ev) rid" by (rule step_loaded[OF r0 r1])
    moreover have "aplCount rid (step s ev) = aplCount rid s"
      using step_count[of rid s ev] True by auto
    ultimately show ?thesis using ih True by (simp add: run)
  next
    case False
    from step_count[of rid s ev] show ?thesis
    proof
      assume "aplCount rid (step s ev) = aplCount rid s"
      with ih False show ?thesis by (simp add: run split: if_splits)
    next
      assume "aplCount rid (step s ev) = aplCount rid s + 1
        \<and> (\<exists>d sid dto. ev = (d, on_message sid (Envelope (E_loadingGame (Fields dto))))
                       \<and> lg_roomID dto = rid)
        \<and> running s rid \<and> \<not> allLoaded s rid
        \<and> running (step s ev) rid
        \<and> roomPlayers (step s ev) rid \<noteq> []
        \<and> allLoaded (step s ev) rid"
      then have "aplCount rid (step s ev) = aplCount rid s + 1" "allLoaded (step s ev) rid"
        by simp_all
      with ih False show ?thesis by (simp add: run)
    qed
  qed
qed

text \<open>
  The load barrier when no handler is interleaved with another. Take any state in which
  a room is Running and any sequence of connections, messages, closes and errors, each
  handled to its end before the next, after each of which the room is still Running.
  Over the whole sequence allPlayersLoaded is broadcast for that room at most once. And
  for every single stimulus in every state: if it adds a broadcast of allPlayersLoaded
  for the room, it adds exactly one, the stimulus is a loadingGame message naming the
  room, the room is Running before and after, and after it the room has at least one
  player and the load flag of every player of the room is set; so nothing is broadcast
  for a room without players.
\<close>

theorem load_barrier_once_when_atomic:
  "(episode rid s evs \<longrightarrow> aplCount rid (run s evs) \<le> aplCount rid s + 1) \<and>
   (aplCount rid (step s ev) \<noteq> aplCount rid s \<longrightarrow>
      aplCount rid (step s ev) = aplCount rid s + 1 \<and>
      (\<exists>d sid dto. ev = (d, on_message sid (Envelope (E_loadingGame (Fields dto))))
                    \<and> lg_roomID dto = rid) \<and>
      running s rid \<and> running (step s ev) rid \<and>
      roomPlayers (step s ev) rid \<noteq> [] \<and> allLoaded (step s ev) rid)"
proof (intro conjI impI)
  assume "episode rid s evs"
  from episode_count[OF this] show "aplCount rid (run s evs) \<le> aplCount rid s + 1"
    by (simp split: if_splits)
next
  assume ne: "aplCount rid (step s ev) \<noteq> aplCount rid s"
  with step_count[of rid s ev]
  have all: "aplCount rid (step s ev) = aplCount rid s + 1
      \<and> (\<exists>d sid dto. ev = (d, on_message sid (Envelope (E_loadingGame (Fields dto))))
                       \<and> lg_roomID dto = rid)
      \<and> running s rid \<and> \<not> allLoaded s rid
      \<and> running (step s ev) rid
      \<and> roomPlayers (step s ev) rid \<noteq> []
      \<and> allLoaded (step s ev) rid" by blast
  from all show "aplCount rid (step s ev) = aplCount rid s + 1" by simp
  from all show "\<exists>d sid dto. ev = (d, on_message sid (Envelope (E_loadingGame (Fields dto))))
                    \<and> lg_roomID dto = rid" by simp
  from all show "running s rid" by simp
  from all show "running (step s ev) rid" by simp
  from all show "roomPlayers (step s ev) rid \<noteq> []" by simp
  from all show "allLoaded (step s ev) rid" by simp
qed

lemmas eval_defs = run_def onMessage_def loadingGame_def senderPlayer_def updatePlayer_def
  broadcastToRoom_def roomPlayers_def openClients_def running_def aplCount_def allLoaded_def
  newPlayerData_def Let_def

theorem load_barrier_atomic_example:
  "episode ''1'' ex_race [ex_loading ''c1'' ''p1'', ex_loading ''c2'' ''p2'', ex_loading ''c1'' ''p1''] \<and>
   aplCount ''1'' ex_race = 0 \<and>
   aplCount ''1'' (run ex_race
      [ex_loading ''c1'' ''p1'', ex_loading ''c2'' ''p2'', ex_loading ''c1'' ''p1'']) = 1 \<and>
   aplCount ''1'' (step (step ex_race (ex_loading ''c1'' ''p1'')) (ex_loading ''c2'' ''p2''))
     \<noteq> aplCount ''1'' (step ex_race (ex_loading ''c1'' ''p1'')) \<and>
   allLoaded (step (step ex_race (ex_loading ''c1'' ''p1'')) (ex_loading ''c2'' ''p2'')) ''1''"
proof -
  let ?evs = "[ex_loading ''c1'' ''p1'', ex_loading ''c2'' ''p2'', ex_loading ''c1'' ''p1'']"
  let ?s1 = "step ex_race (ex_loading ''c1'' ''p1'')"
  have ep: "episode ''1'' ex_race ?evs"
    by (simp add: eval_defs ex_defs)
  have z: "aplCount ''1'' ex_race = 0"
    by (simp add: aplCount_def ex_race_def ex_lobby_def)
  have ge: "aplCount ''1'' (run ex_race ?evs) \<ge> 1"
    by (simp add: eval_defs ex_defs)
  have ne: "aplCount ''1'' (step ?s1 (ex_loading ''c2'' ''p2'')) \<noteq> aplCount ''1'' ?s1"
    by (simp add: eval_defs ex_defs)
  note f = load_barrier_once_when_atomic [where rid = "''1''" and s = ex_race and evs = ?evs]
  note g = load_barrier_once_when_atomic [where rid = "''1''" and s = ?s1
      and ev = "ex_loading ''c2'' ''p2''"]
  have le: "aplCount ''1'' (run ex_race ?evs) \<le> aplCount ''1'' ex_race + 1"
    by (rule f [THEN conjunct1, THEN mp, OF ep])
  have al: "allLoaded (step ?s1 (ex_loading ''c2'' ''p2'')) ''1''"
    using g [THEN conjunct2, THEN mp, OF ne] by simp
  from ep z ge le ne al show ?thesis by simp
qed

subsection \<open>A loadingGame handled while startGame awaits the store\<close>

text \<open>
  startGame assigns status Running, awaits updateRoomStatus, and only then clears the
  load flags. The two parts compose to the handler.
\<close>

lemma startGame_phases:
  "startGame d s sid data =
     (case startGame_suspend d s sid data of
        (s1, None) \<Rightarrow> s1
      | (s1, Some (roomID, m)) \<Rightarrow> startGame_resume d s1 sid roomID m)"
proof (cases data)
  case (Fields dto)
  show ?thesis
  proof (cases "map_of (rooms s) (sg_roomID dto)")
    case None
    with Fields show ?thesis by (simp add: startGame_def startGame_suspend_def)
  next
    case (Some room)
    have st: "map_of (rooms (setRoomStatus (sg_roomID dto) RUNNING s)) (sg_roomID dto)
                = Some (room\<lparr>roomStatus := RUNNING\<rparr>)"
      using Some by (simp add: rooms_setRoomStatus map_of_map_entry)
    show ?thesis
      using Fields Some st
      by (simp add: startGame_def startGame_suspend_def startGame_resume_def Let_def
            roomPlayers_def map_of_map_entry split: option.splits)
  qed
qed (simp_all add: startGame_def startGame_suspend_def)

text \<open>The room of the example is reached by messages handled one after the other.\<close>

lemma second_round_reached:
  "rooms (run ex_connected ex_first_round) = rooms ex_second_round \<and>
   clients (run ex_connected ex_first_round) = clients ex_second_round \<and>
   clientPlayerMap (run ex_connected ex_first_round) = clientPlayerMap ex_second_round"
  by (simp add: ex_first_round_def ex_second_round_def ex_connected_def ex_store_def ex_loading_def
       ex_alice_def ex_bob_def ex_car_def
       run_def onMessage_def createRoom_def createRoom_store_def startGame_def joinRoom_def
       assignKey_def arrayIndex_def digitValue_def
       joinRoom_store_def playerReady_def updateStatusWaitingRoom_def loadingGame_def
       Let_def truthy_def existingRoomId_def dbDo_def sendToClient_def sendError_def
       broadcastRoomList_def broadcastToAll_def broadcastToRoom_def newPlayerData_def
       senderPlayer_def updatePlayer_def setRoomStatus_def roomPlayers_def allReady_def
       MIN_PLAYERS_def MAX_PLAYERS_def resetGameState_def origin_def)


text \<open>
  C2 at the input that breaks it. In the room of the example the host sends startGame:
  the guards pass, the status becomes Running and the handler is suspended at its await.
  Bob's loadingGame is handled now: the room is Running, his flag was false, alice's
  flag is still true from the first race, so allPlayersLoaded is broadcast. The store
  answers, startGame resumes and clears every flag; alice and bob report loading, and
  allPlayersLoaded is broadcast a second time. The room is Running in every one of these
  states: two broadcasts in one Running episode.
\<close>

theorem C2_second_broadcast_in_one_episode:
  "startGame_suspend ex_store ex_second_round ''c1'' (Fields \<lparr>sg_roomID = ''1'', sg_map = 3\<rparr>)
     = (setRoomStatus ''1'' RUNNING ex_second_round, Some (''1'', 3)) \<and>
   running (setRoomStatus ''1'' RUNNING ex_second_round) ''1'' \<and>
   aplCount ''1'' (setRoomStatus ''1'' RUNNING ex_second_round) = 0 \<and>
   running (loadingGame (setRoomStatus ''1'' RUNNING ex_second_round) ''c2''
              (Fields \<lparr>lg_roomID = ''1'', lg_playerID = ''p2''\<rparr>)) ''1'' \<and>
   aplCount ''1'' (loadingGame (setRoomStatus ''1'' RUNNING ex_second_round) ''c2''
              (Fields \<lparr>lg_roomID = ''1'', lg_playerID = ''p2''\<rparr>)) = 1 \<and>
   running (startGame_resume ex_store
              (loadingGame (setRoomStatus ''1'' RUNNING ex_second_round) ''c2''
                 (Fields \<lparr>lg_roomID = ''1'', lg_playerID = ''p2''\<rparr>)) ''c1'' ''1'' 3) ''1'' \<and>
   running (loadingGame (startGame_resume ex_store
              (loadingGame (setRoomStatus ''1'' RUNNING ex_second_round) ''c2''
                 (Fields \<lparr>lg_roomID = ''1'', lg_playerID = ''p2''\<rparr>)) ''c1'' ''1'' 3)
              ''c1'' (Fields \<lparr>lg_roomID = ''1'', lg_playerID = ''p1''\<rparr>)) ''1'' \<and>
   running (loadingGame (loadingGame (startGame_resume ex_store
              (loadingGame (setRoomStatus ''1'' RUNNING ex_second_round) ''c2''
                 (Fields \<lparr>lg_roomID = ''1'', lg_playerID = ''p2''\<rparr>)) ''c1'' ''1'' 3)
              ''c1'' (Fields \<lparr>lg_roomID = ''1'', lg_playerID = ''p1''\<rparr>))
              ''c2'' (Fields \<lparr>lg_roomID = ''1'', lg_playerID = ''p2''\<rparr>)) ''1'' \<and>
   aplCount ''1'' (loadingGame (loadingGame (startGame_resume ex_store
              (loadingGame (setRoomStatus ''1'' RUNNING ex_second_round) ''c2''
                 (Fields \<lparr>lg_roomID = ''1'', lg_playerID = ''p2''\<rparr>)) ''c1'' ''1'' 3)
              ''c1'' (Fields \<lparr>lg_roomID = ''1'', lg_playerID = ''p1''\<rparr>))
              ''c2'' (Fields \<lparr>lg_roomID = ''1'', lg_playerID = ''p2''\<rparr>)) = 2"
  by (simp add: startGame_suspend_def startGame_resume_def loadingGame_def setRoomStatus_def
       ex_second_round_def ex_store_def ex_alice_def ex_bob_def newPlayerData_def
       Let_def allReady_def MIN_PLAYERS_def senderPlayer_def updatePlayer_def dbDo_def
       broadcastToRoom_def broadcastRoomList_def broadcastToAll_def roomPlayers_def
       running_def aplCount_def resetGameState_def)

end
